theory Spec2Isabelle
  imports Complex_Main "HOL-Library.Char_ord" "HOL-Library.List_Lexorder"
begin

section \<open>Python values shared by the three scripts\<close>

text \<open>
  Python \<open>str\<close> values are modelled as \<open>string\<close>: a list of code points, restricted to the
  code points below 256 that \<open>char\<close> holds. The pound sign of the price texts is U+00A3.
  Exceptions are values: every function of the source that can raise returns
  \<open>exn + 'a\<close>, with \<open>Inl\<close> for the exception.
\<close>

datatype exn = AttributeError | KeyError | ValueError | OverflowError | KeyboardInterrupt

definition is_digit :: "char \<Rightarrow> bool" where
  \<comment> \<open>\<open>\d\<close> of the \<open>re\<close> module, on code points below 256: the ASCII digits\<close>
  "is_digit c = (c \<in> set ''0123456789'')"

definition digit_val :: "char \<Rightarrow> nat" where
  "digit_val c = of_char c - 48"

definition dec :: "string \<Rightarrow> nat" where
  \<comment> \<open>the value of a run of decimal digits\<close>
  "dec ds = foldl (\<lambda>n c. 10 * n + digit_val c) 0 ds"

definition re_search_run :: "(char \<Rightarrow> bool) \<Rightarrow> string \<Rightarrow> string option" where
  \<comment> \<open>\<open>re.search("[cls]+", s)\<close>: the leftmost, longest run of characters of the class\<close>
  "re_search_run cls s =
     (case dropWhile (\<lambda>c. \<not> cls c) s of [] \<Rightarrow> None | x # xs \<Rightarrow> Some (takeWhile cls (x # xs)))"

fun str_join :: "string \<Rightarrow> string list \<Rightarrow> string" where
  \<comment> \<open>\<open>sep.join(items)\<close>\<close>
  "str_join sep [] = []"
| "str_join sep [x] = x"
| "str_join sep (x # y # ys) = x @ sep @ str_join sep (y # ys)"

fun split_on :: "char \<Rightarrow> string \<Rightarrow> string list" where
  \<comment> \<open>\<open>s.split(c)\<close>: the pieces between the occurrences of \<open>c\<close>, at least one piece\<close>
  "split_on c [] = [[]]"
| "split_on c (x # xs) =
     (if x = c then [] # split_on c xs
      else (case split_on c xs of [] \<Rightarrow> [[x]] | p # ps \<Rightarrow> (x # p) # ps))"

definition is_space :: "char \<Rightarrow> bool" where
  \<comment> \<open>the whitespace of \<open>str.strip()\<close> among the code points below 256\<close>
  "is_space c = ((of_char c :: nat) \<in> {9, 10, 11, 12, 13, 28, 29, 30, 31, 32, 133, 160})"

definition strip :: "string \<Rightarrow> string" where
  "strip s = rev (dropWhile is_space (rev (dropWhile is_space s)))"

section \<open>transform\_and\_load.py: the cleaning stage's field extraction\<close>

definition RATING_MAP :: "(string \<times> int option) list" where
  "RATING_MAP =
     [(''One'', Some 1), (''Two'', Some 2), (''Three'', Some 3), (''Four'', Some 4),
      (''Five'', Some 5), (''Zero'', Some 0), ('''', None)]"

definition py_float :: "string \<Rightarrow> exn + real" where
  \<comment> \<open>\<open>float(s)\<close> on the strings \<open>parse_price\<close> passes to it, which hold digits and dots
      only: digits with at most one dot and at least one digit convert, anything else is
      a ValueError. The value is the exact decimal (rounding to a double is not modelled).\<close>
  "py_float s =
     (let ip = takeWhile is_digit s; rest = dropWhile is_digit s in
      case rest of
        [] \<Rightarrow> if ip = [] then Inl ValueError else Inr (real (dec ip))
      | c # fp \<Rightarrow>
          if c = CHR ''.'' \<and> list_all is_digit fp \<and> (ip \<noteq> [] \<or> fp \<noteq> [])
          then Inr (real (dec (ip @ fp)) / 10 ^ length fp)
          else Inl ValueError)"

definition price_char :: "char \<Rightarrow> bool" where
  \<comment> \<open>the character class \<open>[\d\.,]\<close>\<close>
  "price_char c = (is_digit c \<or> c = CHR ''.'' \<or> c = CHR '','')"

definition parse_price :: "string \<Rightarrow> exn + real option" where
  "parse_price price_text =
     (if price_text = [] then Inr None
      else case re_search_run price_char price_text of
        None \<Rightarrow> Inr None
      | Some m \<Rightarrow>
          (case py_float (filter (\<lambda>c. c \<noteq> CHR '','') m) of
             Inl e \<Rightarrow> Inl e
           | Inr v \<Rightarrow> Inr (Some v)))"

definition parse_availability :: "string \<Rightarrow> int option" where
  "parse_availability avail_text =
     (if avail_text = [] then None
      else case re_search_run is_digit avail_text of
        Some m \<Rightarrow> Some (int (dec m))
      | None \<Rightarrow> Some 0)"

definition rating_word_to_int :: "string \<Rightarrow> int option" where
  \<comment> \<open>\<open>RATING_MAP.get(rating_word, None)\<close>\<close>
  "rating_word_to_int rating_word =
     (case map_of RATING_MAP rating_word of Some v \<Rightarrow> v | None \<Rightarrow> None)"

section \<open>scrape.py: records, files and the checkpoint\<close>

text \<open>
  A scraped item is a Python dict with string keys whose values are strings or None. It is
  an association list in insertion order with distinct keys; \<open>dict_set\<close> is the assignment
  \<open>d[k] = v\<close>, which keeps the position of a key that is already present.
\<close>

type_synonym book = "(string \<times> string option) list"

fun dict_set :: "string \<Rightarrow> 'v \<Rightarrow> (string \<times> 'v) list \<Rightarrow> (string \<times> 'v) list" where
  "dict_set k v [] = [(k, v)]"
| "dict_set k v ((k', v') # d) = (if k' = k then (k, v) # d else (k', v') # dict_set k v d)"

definition dict_update :: "(string \<times> 'v) list \<Rightarrow> (string \<times> 'v) list \<Rightarrow> (string \<times> 'v) list" where
  \<comment> \<open>\<open>d.update(e)\<close>: the entries of \<open>e\<close> are assigned in their order\<close>
  "dict_update d e = foldl (\<lambda>acc (k, v). dict_set k v acc) d e"

text \<open>
  The world the scraper acts on: the files under \<open>data/\<close> (a map from path to text), the
  number of HTTP requests issued so far, the number of random draws made so far, and the
  durations passed to \<open>time.sleep\<close>, oldest first. File operations do not fail in this
  model (no full disk, no permission error).
\<close>

record world =
  files :: "string \<rightharpoonup> string"
  clock :: nat
  draws :: nat
  sleeps :: "real list"

definition path_join :: "string \<Rightarrow> string \<Rightarrow> string" where
  \<comment> \<open>\<open>Path(d) / name\<close> for a relative directory and a plain file name\<close>
  "path_join d name = d @ ''/'' @ name"

definition path_name :: "string \<Rightarrow> string" where
  "path_name p = rev (takeWhile (\<lambda>c. c \<noteq> CHR ''/'') (rev p))"

definition path_suffix :: "string \<Rightarrow> string" where
  \<comment> \<open>\<open>PurePath.suffix\<close>: from the last dot of the name, unless that dot is first or last\<close>
  "path_suffix p =
     (let name = path_name p; after = rev (takeWhile (\<lambda>c. c \<noteq> CHR ''.'') (rev name)) in
      if CHR ''.'' \<in> set name \<and> after \<noteq> [] \<and> Suc (length after) < length name
      then CHR ''.'' # after else [])"

definition with_suffix :: "string \<Rightarrow> string \<Rightarrow> string" where
  \<comment> \<open>\<open>PurePath.with_suffix\<close> for a path with a name and a suffix that starts with a dot\<close>
  "with_suffix p suffix = take (length p - length (path_suffix p)) p @ suffix"

definition DATA_DIR :: string where
  "DATA_DIR = ''data''"

definition RAW_JSON :: string where
  "RAW_JSON = path_join DATA_DIR ''raw_books.json''"

definition RAW_CSV :: string where
  "RAW_CSV = path_join DATA_DIR ''raw_books.csv''"

definition open_w :: "string \<Rightarrow> world \<Rightarrow> world" where
  \<comment> \<open>\<open>open(path, "w")\<close> creates the file or truncates it\<close>
  "open_w path w = w\<lparr>files := (files w)(path \<mapsto> [])\<rparr>"

definition file_write :: "string \<Rightarrow> string \<Rightarrow> world \<Rightarrow> world" where
  \<comment> \<open>\<open>f.write(text)\<close> on a file opened for writing appends to what was written\<close>
  "file_write path text w =
     w\<lparr>files := (files w)(path \<mapsto> (case files w path of None \<Rightarrow> [] | Some old \<Rightarrow> old) @ text)\<rparr>"

definition path_replace :: "string \<Rightarrow> string \<Rightarrow> world \<Rightarrow> world" where
  \<comment> \<open>\<open>src.replace(dst)\<close>: one rename; the source path no longer exists afterwards\<close>
  "path_replace src dst w =
     (case files w src of
        None \<Rightarrow> w
      | Some text \<Rightarrow> w\<lparr>files := ((files w)(src := None))(dst \<mapsto> text)\<rparr>)"

subsection \<open>json.dump(all\_books, f, ensure\_ascii=False, indent=2)\<close>

definition quote_chr :: char where "quote_chr = CHR 0x22"
definition bslash_chr :: char where "bslash_chr = CHR 0x5C"
definition nl_chr :: char where "nl_chr = CHR 0x0A"

definition hex_digit :: "nat \<Rightarrow> char" where
  "hex_digit n = ''0123456789abcdef'' ! (n mod 16)"

definition json_escape :: "char \<Rightarrow> string" where
  \<comment> \<open>the encoder's escape table without \<open>ensure_ascii\<close>: quote, backslash and the
      control characters below 0x20 are escaped, every other character is written as it is\<close>
  "json_escape c =
     (if c = quote_chr then [bslash_chr, quote_chr]
      else if c = bslash_chr then [bslash_chr, bslash_chr]
      else if c = CHR 0x0A then [bslash_chr, CHR ''n'']
      else if c = CHR 0x0D then [bslash_chr, CHR ''r'']
      else if c = CHR 0x09 then [bslash_chr, CHR ''t'']
      else if c = CHR 0x08 then [bslash_chr, CHR ''b'']
      else if c = CHR 0x0C then [bslash_chr, CHR ''f'']
      else if (of_char c :: nat) < 32
        then [bslash_chr, CHR ''u'', CHR ''0'', CHR ''0'',
              hex_digit (of_char c div 16), hex_digit (of_char c mod 16)]
      else [c])"

definition json_string :: "string \<Rightarrow> string" where
  "json_string s = quote_chr # concat (map json_escape s) @ [quote_chr]"

definition json_value :: "string option \<Rightarrow> string" where
  "json_value v = (case v of None \<Rightarrow> ''null'' | Some s \<Rightarrow> json_string s)"

definition json_member :: "string \<times> string option \<Rightarrow> string" where
  "json_member kv = json_string (fst kv) @ '': '' @ json_value (snd kv)"

definition json_object :: "book \<Rightarrow> string" where
  \<comment> \<open>a dict at nesting level 1: members at indent 4, the closing brace at indent 2\<close>
  "json_object b =
     (if b = [] then ''{}''
      else ''{'' @ nl_chr # ''    '' @ str_join ('','' @ nl_chr # ''    '') (map json_member b)
           @ nl_chr # ''  }'')"

definition json_dumps :: "book list \<Rightarrow> string" where
  "json_dumps all_books =
     (if all_books = [] then ''[]''
      else ''['' @ nl_chr # ''  '' @ str_join ('','' @ nl_chr # ''  '') (map json_object all_books)
           @ nl_chr # '']'')"

subsection \<open>safe\_write\_json\_partial\<close>

text \<open>
  The function is three statements: open the temporary file, dump into it (the with-block
  closes it), rename it over the destination. \<open>safe_write_json_partial_upto\<close> runs them up
  to a crash point; a crash during the dump leaves a prefix of the text in the temporary file.
\<close>

datatype crash_point = Before_open | After_open | During_dump nat | After_dump | Completed

definition safe_write_json_partial_upto :: "crash_point \<Rightarrow> book list \<Rightarrow> world \<Rightarrow> world" where
  "safe_write_json_partial_upto cp all_books w =
     (let tmp = with_suffix RAW_JSON ''.tmp'' in
      case cp of
        Before_open \<Rightarrow> w
      | After_open \<Rightarrow> open_w tmp w
      | During_dump n \<Rightarrow> file_write tmp (take n (json_dumps all_books)) (open_w tmp w)
      | After_dump \<Rightarrow> file_write tmp (json_dumps all_books) (open_w tmp w)
      | Completed \<Rightarrow>
          path_replace tmp RAW_JSON (file_write tmp (json_dumps all_books) (open_w tmp w)))"

definition safe_write_json_partial :: "book list \<Rightarrow> world \<Rightarrow> world" where
  "safe_write_json_partial all_books w =
     (let tmp = with_suffix RAW_JSON ''.tmp'' in
      path_replace tmp RAW_JSON (file_write tmp (json_dumps all_books) (open_w tmp w)))"

subsection \<open>json.load\<close>

text \<open>
  The decoder reads the documents a checkpoint holds: an array of objects whose values are
  strings or null, with JSON whitespace between the tokens and the escapes of JSON inside
  the strings. \<open>Inl ValueError\<close> is the JSONDecodeError of a text that is not JSON. A text
  that is JSON of another shape (numbers, nested values, an escape above U+00FF) is outside
  what the model covers and is refused in the same way.
\<close>

definition json_ws :: "char \<Rightarrow> bool" where
  "json_ws c = (c \<in> {CHR '' '', CHR 0x09, CHR 0x0A, CHR 0x0D})"

definition skip_ws :: "string \<Rightarrow> string" where
  "skip_ws s = dropWhile json_ws s"

definition hex_val :: "char \<Rightarrow> nat option" where
  "hex_val c =
     (if is_digit c then Some (of_char c - 48)
      else if c \<in> set ''abcdef'' then Some (of_char c - 87)
      else if c \<in> set ''ABCDEF'' then Some (of_char c - 55)
      else None)"

definition unescape :: "char \<Rightarrow> char option" where
  \<comment> \<open>the character a backslash and this letter stand for\<close>
  "unescape e =
     (if e = quote_chr then Some quote_chr
      else if e = bslash_chr then Some bslash_chr
      else if e = CHR ''/'' then Some (CHR ''/'')
      else if e = CHR ''b'' then Some (CHR 0x08)
      else if e = CHR ''f'' then Some (CHR 0x0C)
      else if e = CHR ''n'' then Some (CHR 0x0A)
      else if e = CHR ''r'' then Some (CHR 0x0D)
      else if e = CHR ''t'' then Some (CHR 0x09)
      else None)"

definition hex4 :: "char \<Rightarrow> char \<Rightarrow> char \<Rightarrow> char \<Rightarrow> nat option" where
  "hex4 a b c d =
     (case (hex_val a, hex_val b, hex_val c, hex_val d) of
        (Some x, Some y, Some z, Some u) \<Rightarrow> Some (((x * 16 + y) * 16 + z) * 16 + u)
      | _ \<Rightarrow> None)"

fun scan_string :: "string \<Rightarrow> (string \<times> string) option" where
  \<comment> \<open>the text after an opening quote: the string it holds and what follows the closing quote\<close>
  "scan_string [] = None"
| "scan_string (c # cs) =
     (if c = quote_chr then Some ([], cs)
      else if c = bslash_chr then
        (case cs of
           [] \<Rightarrow> None
         | e # r \<Rightarrow>
             if e = CHR ''u'' then
               (case r of
                  h1 # h2 # h3 # h4 # r' \<Rightarrow>
                    (case hex4 h1 h2 h3 h4 of
                       None \<Rightarrow> None
                     | Some n \<Rightarrow>
                         if n < 256
                         then map_option (\<lambda>(s, t). (char_of n # s, t)) (scan_string r')
                         else None)
                | _ \<Rightarrow> None)
             else
               (case unescape e of
                  None \<Rightarrow> None
                | Some x \<Rightarrow> map_option (\<lambda>(s, t). (x # s, t)) (scan_string r)))
      else if (of_char c :: nat) < 32 then None
      else map_option (\<lambda>(s, t). (c # s, t)) (scan_string cs))"

definition scan_value :: "string \<Rightarrow> (string option \<times> string) option" where
  "scan_value s =
     (if take 4 s = ''null'' then Some (None, drop 4 s)
      else case s of
        [] \<Rightarrow> None
      | c # cs \<Rightarrow>
          if c = quote_chr then map_option (\<lambda>(v, r). (Some v, r)) (scan_string cs) else None)"

lemma scan_string_shorter: "scan_string s = Some (v, r) \<Longrightarrow> length r < length s"
proof (induction s arbitrary: v r rule: scan_string.induct)
  case 1
  then show ?case by simp
next
  case (2 c cs)
  then show ?case
    by (fastforce split: if_splits list.splits option.splits)
qed

lemma skip_ws_length: "length (skip_ws s) \<le> length s"
  by (simp add: skip_ws_def length_dropWhile_le)

lemma scan_value_shorter: "scan_value s = Some (v, r) \<Longrightarrow> length r < length s"
  by (cases s)
     (auto simp: scan_value_def split: if_splits dest!: scan_string_shorter)

definition expect :: "char \<Rightarrow> string \<Rightarrow> string option" where
  "expect c s = (case s of [] \<Rightarrow> None | x # xs \<Rightarrow> if x = c then Some xs else None)"

definition scan_member :: "string \<Rightarrow> ((string \<times> string option) \<times> string) option" where
  "scan_member s =
     (case expect quote_chr s of
        None \<Rightarrow> None
      | Some cs \<Rightarrow>
          (case scan_string cs of
             None \<Rightarrow> None
           | Some (k, r1) \<Rightarrow>
               (case expect (CHR '':'') (skip_ws r1) of
                  None \<Rightarrow> None
                | Some r2 \<Rightarrow>
                    (case scan_value (skip_ws r2) of
                       None \<Rightarrow> None
                     | Some (v, r3) \<Rightarrow> Some ((k, v), skip_ws r3)))))"

lemma expect_shorter: "expect c s = Some r \<Longrightarrow> length r < length s"
  by (cases s) (auto simp: expect_def split: if_splits)

lemma scan_member_shorter: "scan_member s = Some (kv, r) \<Longrightarrow> length r < length s"
proof -
  assume a: "scan_member s = Some (kv, r)"
  then obtain cs k r1 r2 v r3 where
    1: "expect quote_chr s = Some cs" and 2: "scan_string cs = Some (k, r1)"
    and 3: "expect (CHR '':'') (skip_ws r1) = Some r2"
    and 4: "scan_value (skip_ws r2) = Some (v, r3)" and 5: "r = skip_ws r3"
    by (auto simp: scan_member_def split: option.splits)
  show ?thesis
    using expect_shorter[OF 1] scan_string_shorter[OF 2] expect_shorter[OF 3]
      scan_value_shorter[OF 4] skip_ws_length[of r1] skip_ws_length[of r2]
      skip_ws_length[of r3]
    unfolding 5 by linarith
qed

function scan_members :: "book \<Rightarrow> string \<Rightarrow> (book \<times> string) option" where
  "scan_members acc s =
     (case scan_member s of
        None \<Rightarrow> None
      | Some ((k, v), r) \<Rightarrow>
          (case r of
             [] \<Rightarrow> None
           | c # r' \<Rightarrow>
               if c = CHR '','' then scan_members (dict_set k v acc) (skip_ws r')
               else if c = CHR ''}'' then Some (dict_set k v acc, r')
               else None))"
  by pat_completeness auto
termination
proof (relation "measure (\<lambda>(acc, s). length s)", goal_cases)
  case 1
  show ?case by simp
next
  case (2 acc s x2 kv r k v c r')
  then have "scan_member s = Some ((k, v), c # r')" by simp
  then have "length (c # r') < length s" by (rule scan_member_shorter)
  then show ?case using skip_ws_length[of r'] by simp
qed

declare scan_members.simps [simp del]

definition scan_object :: "string \<Rightarrow> (book \<times> string) option" where
  \<comment> \<open>the text after an opening brace\<close>
  "scan_object s =
     (case expect (CHR ''}'') (skip_ws s) of
        Some r \<Rightarrow> Some ([], r)
      | None \<Rightarrow> scan_members [] (skip_ws s))"

lemma scan_members_shorter: "scan_members acc s = Some (b, r) \<Longrightarrow> length r < length s"
proof (induction acc s arbitrary: b r rule: scan_members.induct)
  case (1 acc s)
  from "1.prems" obtain k v r0 where m: "scan_member s = Some ((k, v), r0)"
    by (subst (asm) scan_members.simps) (auto split: option.splits)
  then have l0: "length r0 < length s" by (rule scan_member_shorter)
  from "1.prems" m obtain c r' where r0: "r0 = c # r'"
    by (subst (asm) scan_members.simps) (auto split: list.splits)
  show ?case
  proof (cases "c = CHR '',''")
    case True
    then have "scan_members (dict_set k v acc) (skip_ws r') = Some (b, r)"
      using "1.prems" m r0 by (subst (asm) scan_members.simps) simp
    then have "length r < length (skip_ws r')"
      using "1.IH"[OF m refl refl r0 True] by simp
    then show ?thesis using l0 r0 skip_ws_length[of r'] by simp
  next
    case False
    then have "r = r'"
      using "1.prems" m r0 by (subst (asm) scan_members.simps) (auto split: if_splits)
    then show ?thesis using l0 r0 by simp
  qed
qed

lemma scan_object_shorter: "scan_object s = Some (b, r) \<Longrightarrow> length r < Suc (length s)"
  using skip_ws_length[of s]
  by (auto simp: scan_object_def split: option.splits
      dest!: expect_shorter scan_members_shorter)

function scan_objects :: "book list \<Rightarrow> string \<Rightarrow> (book list \<times> string) option" where
  "scan_objects acc s =
     (case expect (CHR ''{'') s of
        None \<Rightarrow> None
      | Some cs \<Rightarrow>
          (case scan_object cs of
             None \<Rightarrow> None
           | Some (b, r1) \<Rightarrow>
               (case skip_ws r1 of
                  [] \<Rightarrow> None
                | c # r2 \<Rightarrow>
                    if c = CHR '','' then scan_objects (acc @ [b]) (skip_ws r2)
                    else if c = CHR '']'' then Some (acc @ [b], r2)
                    else None)))"
  by pat_completeness auto
termination
proof (relation "measure (\<lambda>(acc, s). length s)", goal_cases)
  case 1
  show ?case by simp
next
  case (2 acc s cs x2 b r1 c r2)
  have a: "length cs < length s" using 2 expect_shorter by auto
  have b: "length r1 < Suc (length cs)" using 2 scan_object_shorter by auto
  have c: "Suc (length r2) \<le> length r1"
    using 2 skip_ws_length[of r1] by (metis length_Cons)
  show ?case using a b c skip_ws_length[of r2] by simp
qed

declare scan_objects.simps [simp del]

definition json_loads :: "string \<Rightarrow> exn + book list" where
  "json_loads text =
     (case expect (CHR ''['') (skip_ws text) of
        None \<Rightarrow> Inl ValueError
      | Some cs \<Rightarrow>
          (case (case expect (CHR '']'') (skip_ws cs) of
                   Some r \<Rightarrow> Some ([], r)
                 | None \<Rightarrow> scan_objects [] (skip_ws cs)) of
             None \<Rightarrow> Inl ValueError
           | Some (all_books, r) \<Rightarrow>
               if skip_ws r = [] then Inr all_books else Inl ValueError))"

section \<open>scrape.py: pages and the fetcher\<close>

text \<open>
  A parsed page (the \<open>BeautifulSoup\<close> object and the \<open>Tag\<close>s under it) is a tree: an element
  has a name, the tokens of its \<open>class\<close> attribute (empty when it has none), its other
  attributes and its children; a text node holds its string.
\<close>

datatype tag =
  Tag string "string list" "(string \<times> string) list" "tag list"
| NavigableString string

text \<open>
  One call of \<open>requests.get\<close> returns a response, raises an exception that
  \<open>except Exception\<close> catches (a network failure or a timeout), or is cut short by a
  KeyboardInterrupt, which \<open>except Exception\<close> does not catch. The body of a response is
  given parsed. The environment fixes what the \<open>n\<close>-th request of the run meets at each URL
  and what the \<open>n\<close>-th random draw is; \<open>random.random()\<close> is a multiple of \<open>2\<^sup>-\<^sup>5\<^sup>3\<close> in
  \<open>[0, 1)\<close>. The per-request timeout is real time and has no counterpart here.
\<close>

datatype response = Response (status_code: int) (resp_soup: tag) (resp_url: string)

datatype outcome = Returns response | Raises | Interrupted

record env =
  net :: "nat \<Rightarrow> string \<Rightarrow> outcome"
  rnd :: "nat \<Rightarrow> nat"

definition requests_get :: "env \<Rightarrow> string \<Rightarrow> world \<Rightarrow> outcome \<times> world" where
  "requests_get env url w = (net env (clock w) url, w\<lparr>clock := Suc (clock w)\<rparr>)"

definition random_value :: "env \<Rightarrow> nat \<Rightarrow> real" where
  "random_value env n = real (rnd env n mod 2 ^ 53) / 2 ^ 53"

definition random_random :: "env \<Rightarrow> world \<Rightarrow> real \<times> world" where
  "random_random env w = (random_value env (draws w), w\<lparr>draws := Suc (draws w)\<rparr>)"

definition random_uniform :: "real \<Rightarrow> real \<Rightarrow> env \<Rightarrow> world \<Rightarrow> real \<times> world" where
  \<comment> \<open>\<open>random.uniform(a, b)\<close> is \<open>a + (b - a) * random()\<close>\<close>
  "random_uniform a b env w = (let (r, w1) = random_random env w in (a + (b - a) * r, w1))"

definition time_sleep :: "real \<Rightarrow> world \<Rightarrow> exn + world" where
  \<comment> \<open>\<open>time.sleep\<close> refuses a negative duration with a ValueError. It converts the duration
      to a signed 64-bit count of nanoseconds and raises OverflowError when the count does
      not fit (from about 9.2e9 seconds on). The bound is taken on the exact product; the
      rounding of the double at the bound itself is not modelled.\<close>
  "time_sleep secs w =
     (if secs < 0 then Inl ValueError
      else if 2 ^ 63 \<le> secs * 10 ^ 9 then Inl OverflowError
      else Inr (w\<lparr>sleeps := sleeps w @ [secs]\<rparr>))"

text \<open>
  \<open>get_soup_and_url\<close>: the for-loop over \<open>range(1, max_retries + 1)\<close> is \<open>get_soup_loop\<close>,
  with the attempt number and the current delay as loop variables. The inner case is the
  try statement: it leaves the function with a value or a KeyboardInterrupt, or falls
  through to the sleep. The result \<open>Inr None\<close> is the pair \<open>(None, None)\<close>.
\<close>

function get_soup_loop ::
  "env \<Rightarrow> string \<Rightarrow> int \<Rightarrow> int \<Rightarrow> real \<Rightarrow> world \<Rightarrow> (exn + (tag \<times> string) option) \<times> world" where
  "get_soup_loop env url max_retries attempt delay w =
     (if max_retries < attempt then (Inr None, w)
      else
        let (out, w1) = requests_get env url w in
        (case (case out of
                 Interrupted \<Rightarrow> Some (Inl KeyboardInterrupt)
               | Raises \<Rightarrow> None
               | Returns resp \<Rightarrow>
                   if status_code resp \<noteq> 200 then None
                   else Some (Inr (Some (resp_soup resp, resp_url resp)))) of
           Some r \<Rightarrow> (r, w1)
         | None \<Rightarrow>
             let (jitter, w2) = random_random env w1 in
             (case time_sleep (delay * (1 + jitter)) w2 of
                Inl e \<Rightarrow> (Inl e, w2)
              | Inr w3 \<Rightarrow> get_soup_loop env url max_retries (attempt + 1) (delay * 2) w3)))"
  by pat_completeness auto
termination
  by (relation "measure (\<lambda>(env, url, max_retries, attempt, delay, w). nat (max_retries + 1 - attempt))")
     auto

definition get_soup_and_url ::
  "env \<Rightarrow> string \<Rightarrow> int \<Rightarrow> real \<Rightarrow> world \<Rightarrow> (exn + (tag \<times> string) option) \<times> world" where
  "get_soup_and_url env url max_retries backoff_factor w =
     get_soup_loop env url max_retries 1 backoff_factor w"

section \<open>scrape.py: querying a parsed page\<close>

text \<open>
  The queries of BeautifulSoup that the scraper uses. \<open>walk\<close> lists an element and what is
  below it in document order, each node with its ancestors (nearest first) and with the
  siblings that follow it; \<open>descendants\<close> is what \<open>find\<close>, \<open>find_all\<close> and \<open>select\<close> search.
\<close>

fun tag_named :: "string \<Rightarrow> tag \<Rightarrow> bool" where
  "tag_named n (Tag m cls as cs) = (m = n)"
| "tag_named n (NavigableString s) = False"

fun tag_class :: "tag \<Rightarrow> string list" where
  \<comment> \<open>\<open>tag.get("class", [])\<close>\<close>
  "tag_class (Tag m cls as cs) = cls"
| "tag_class (NavigableString s) = []"

fun tag_get :: "tag \<Rightarrow> string \<Rightarrow> string \<Rightarrow> string" where
  \<comment> \<open>\<open>tag.get(key, default)\<close> for an attribute with a single value\<close>
  "tag_get (Tag m cls as cs) key dflt = (case map_of as key of Some v \<Rightarrow> v | None \<Rightarrow> dflt)"
| "tag_get (NavigableString s) key dflt = dflt"

fun tag_attr :: "tag \<Rightarrow> string \<Rightarrow> string option" where
  "tag_attr (Tag m cls as cs) key = map_of as key"
| "tag_attr (NavigableString s) key = None"

fun tag_text :: "tag \<Rightarrow> string" where
  \<comment> \<open>\<open>tag.text\<close>: the strings below the tag, concatenated\<close>
  "tag_text (Tag m cls as cs) = concat (map tag_text cs)"
| "tag_text (NavigableString s) = s"

fun walk :: "tag list \<Rightarrow> tag list \<Rightarrow> tag \<Rightarrow> (tag \<times> tag list \<times> tag list) list"
  and walks :: "tag list \<Rightarrow> tag list \<Rightarrow> (tag \<times> tag list \<times> tag list) list" where
  "walk anc sibs (NavigableString s) = [(NavigableString s, anc, sibs)]"
| "walk anc sibs (Tag m cls as cs) = (Tag m cls as cs, anc, sibs) # walks (Tag m cls as cs # anc) cs"
| "walks anc [] = []"
| "walks anc (t # ts) = walk anc ts t @ walks anc ts"

fun descendants :: "tag \<Rightarrow> (tag \<times> tag list \<times> tag list) list" where
  "descendants (Tag m cls as cs) = walks [Tag m cls as cs] cs"
| "descendants (NavigableString s) = []"

definition has_class :: "string \<Rightarrow> tag \<Rightarrow> bool" where
  \<comment> \<open>the \<open>class_\<close> filter: some token of the class attribute is the wanted string, or the
      whole attribute (its tokens joined by a space) is\<close>
  "has_class c t =
     (tag_class t \<noteq> [] \<and> (c \<in> set (tag_class t) \<or> str_join '' '' (tag_class t) = c))"

definition find_tag :: "string \<Rightarrow> tag \<Rightarrow> tag option" where
  \<comment> \<open>\<open>tag.find(name)\<close>\<close>
  "find_tag n t = List.find (tag_named n) (map fst (descendants t))"

definition find_class :: "string \<Rightarrow> string \<Rightarrow> tag \<Rightarrow> tag option" where
  \<comment> \<open>\<open>tag.find(name, class_=c)\<close>\<close>
  "find_class n c t = List.find (\<lambda>d. tag_named n d \<and> has_class c d) (map fst (descendants t))"

definition find_all :: "string \<Rightarrow> tag \<Rightarrow> tag list" where
  "find_all n t = filter (tag_named n) (map fst (descendants t))"

definition find_next_sibling :: "string \<Rightarrow> tag list \<Rightarrow> tag option" where
  \<comment> \<open>\<open>tag.find_next_sibling(name)\<close>, given the siblings that follow the tag\<close>
  "find_next_sibling n sibs = List.find (tag_named n) sibs"

fun under :: "(tag \<Rightarrow> bool) list \<Rightarrow> tag list \<Rightarrow> bool" where
  \<comment> \<open>the descendant combinator: the ancestors (nearest first) hold, in this order and
      possibly with others between them, elements matching the given selectors\<close>
  "under [] anc = True"
| "under (p # ps) [] = False"
| "under (p # ps) (a # anc) = ((p a \<and> under ps anc) \<or> under (p # ps) anc)"

definition select_product_pods :: "tag \<Rightarrow> tag list" where
  \<comment> \<open>\<open>soup.select("article.product_pod")\<close>\<close>
  "select_product_pods soup =
     filter (\<lambda>d. tag_named ''article'' d \<and> ''product_pod'' \<in> set (tag_class d))
       (map fst (descendants soup))"

definition select_breadcrumbs :: "tag \<Rightarrow> tag list" where
  \<comment> \<open>\<open>soup.select("ul.breadcrumb li a")\<close>\<close>
  "select_breadcrumbs soup =
     map fst
       (filter
          (\<lambda>(d, anc, sibs). tag_named ''a'' d
             \<and> under [tag_named ''li'',
                      \<lambda>a. tag_named ''ul'' a \<and> ''breadcrumb'' \<in> set (tag_class a)] anc)
          (descendants soup))"

definition select_one_id :: "string \<Rightarrow> tag \<Rightarrow> (tag \<times> tag list) option" where
  \<comment> \<open>\<open>soup.select_one("#" + ident)\<close>, with the siblings that follow the element found\<close>
  "select_one_id ident soup =
     map_option (\<lambda>(d, anc, sibs). (d, sibs))
       (List.find (\<lambda>(d, anc, sibs). tag_attr d ''id'' = Some ident)
          (descendants soup))"
section \<open>scrape.py: joining links (urllib.parse.urljoin)\<close>

text \<open>
  \<open>urljoin\<close> follows the library function of CPython 3.11 step by step: \<open>urlsplit\<close>,
  the split of the parameters, the merge of the paths with the removal of dot segments,
  \<open>urlunparse\<close>. One part is not modelled: the library checks a bracketed host as an IP
  literal and raises ValueError when it is not one; here every bracket in the host raises
  ValueError, so the model raises whenever the library does.
\<close>

definition uses_relative :: "string list" where
  "uses_relative =
     ['''', ''ftp'', ''http'', ''gopher'', ''nntp'', ''imap'', ''wais'', ''file'', ''https'',
      ''shttp'', ''mms'', ''prospero'', ''rtsp'', ''rtspu'', ''sftp'', ''svn'', ''svn+ssh'',
      ''ws'', ''wss'']"

definition uses_netloc :: "string list" where
  "uses_netloc =
     ['''', ''ftp'', ''http'', ''gopher'', ''nntp'', ''telnet'', ''imap'', ''wais'', ''file'',
      ''mms'', ''https'', ''shttp'', ''snews'', ''prospero'', ''rtsp'', ''rtspu'', ''rsync'',
      ''svn'', ''svn+ssh'', ''sftp'', ''nfs'', ''git'', ''git+ssh'', ''ws'', ''wss'']"

definition uses_params :: "string list" where
  "uses_params =
     ['''', ''ftp'', ''hdl'', ''prospero'', ''http'', ''imap'', ''https'', ''shttp'', ''rtsp'',
      ''rtspu'', ''sip'', ''sips'', ''mms'', ''sftp'', ''tel'']"

definition is_upper :: "char \<Rightarrow> bool" where
  "is_upper c = (c \<in> set ''ABCDEFGHIJKLMNOPQRSTUVWXYZ'')"

definition is_lower :: "char \<Rightarrow> bool" where
  "is_lower c = (c \<in> set ''abcdefghijklmnopqrstuvwxyz'')"

definition scheme_char :: "char \<Rightarrow> bool" where
  "scheme_char c = (is_lower c \<or> is_upper c \<or> is_digit c \<or> c \<in> set ''+-.'')"

definition to_lower :: "char \<Rightarrow> char" where
  "to_lower c = (if is_upper c then char_of (of_char c + (32::nat)) else c)"

definition split_once :: "char \<Rightarrow> string \<Rightarrow> string \<times> string" where
  \<comment> \<open>\<open>s.split(c, 1)\<close> when \<open>c\<close> occurs in \<open>s\<close>, and \<open>(s, "")\<close> when it does not\<close>
  "split_once c s = (takeWhile (\<lambda>x. x \<noteq> c) s, drop 1 (dropWhile (\<lambda>x. x \<noteq> c) s))"

definition urlsplit :: "string \<Rightarrow> string \<Rightarrow> exn + string \<times> string \<times> string \<times> string \<times> string" where
  \<comment> \<open>scheme, netloc, path, query, fragment; leading control characters and spaces are
      dropped, tabs and line breaks are removed\<close>
  "urlsplit url0 default_scheme =
     (let url = filter (\<lambda>c. c \<notin> {CHR 0x09, CHR 0x0A, CHR 0x0D})
                  (dropWhile (\<lambda>c. (of_char c :: nat) \<le> 32) url0);
          pre = takeWhile (\<lambda>c. c \<noteq> CHR '':'') url;
          has_scheme = (CHR '':'' \<in> set url \<and> pre \<noteq> []
                        \<and> (is_lower (hd pre) \<or> is_upper (hd pre)) \<and> list_all scheme_char pre);
          scheme = (if has_scheme then map to_lower pre else default_scheme);
          url1 = (if has_scheme then drop (Suc (length pre)) url else url);
          has_netloc = (take 2 url1 = ''//'');
          netloc = (if has_netloc
                    then takeWhile (\<lambda>c. c \<notin> set ''/?#'') (drop 2 url1) else []);
          url2 = (if has_netloc then dropWhile (\<lambda>c. c \<notin> set ''/?#'') (drop 2 url1) else url1);
          (url3, fragment) = split_once (CHR ''#'') url2;
          (url4, query) = split_once (CHR ''?'') url3
      in if CHR ''['' \<in> set netloc \<or> CHR '']'' \<in> set netloc then Inl ValueError
         else Inr (scheme, netloc, url4, query, fragment))"

definition splitparams :: "string \<Rightarrow> string \<times> string" where
  \<comment> \<open>the parameters start at the first semicolon of the last path segment\<close>
  "splitparams url =
     (let seg = rev (takeWhile (\<lambda>c. c \<noteq> CHR ''/'') (rev url));
          dir = take (length url - length seg) url
      in if CHR '';'' \<in> set seg
         then (dir @ takeWhile (\<lambda>c. c \<noteq> CHR '';'') seg,
               drop 1 (dropWhile (\<lambda>c. c \<noteq> CHR '';'') seg))
         else (url, []))"

definition urlparse ::
  "string \<Rightarrow> string \<Rightarrow> exn + string \<times> string \<times> string \<times> string \<times> string \<times> string" where
  \<comment> \<open>scheme, netloc, path, params, query, fragment\<close>
  "urlparse url default_scheme =
     (case urlsplit url default_scheme of
        Inl e \<Rightarrow> Inl e
      | Inr (scheme, netloc, path, query, fragment) \<Rightarrow>
          if scheme \<in> set uses_params \<and> CHR '';'' \<in> set path
          then (let (path', params) = splitparams path
                in Inr (scheme, netloc, path', params, query, fragment))
          else Inr (scheme, netloc, path, [], query, fragment))"

definition urlunparse :: "string \<times> string \<times> string \<times> string \<times> string \<times> string \<Rightarrow> string" where
  "urlunparse parts =
     (case parts of (scheme, netloc, path, params, query, fragment) \<Rightarrow>
        let url = (if params \<noteq> [] then path @ '';'' @ params else path);
            url = (if netloc \<noteq> [] \<or> (scheme \<noteq> [] \<and> scheme \<in> set uses_netloc \<and> take 2 url \<noteq> ''//'')
                   then ''//'' @ netloc @ (if url \<noteq> [] \<and> take 1 url \<noteq> ''/'' then ''/'' @ url else url)
                   else url);
            url = (if scheme \<noteq> [] then scheme @ '':'' @ url else url);
            url = (if query \<noteq> [] then url @ ''?'' @ query else url)
        in (if fragment \<noteq> [] then url @ ''#'' @ fragment else url))"

definition drop_empty_middle :: "string list \<Rightarrow> string list" where
  \<comment> \<open>\<open>segments[1:-1] = filter(None, segments[1:-1])\<close>\<close>
  "drop_empty_middle segments =
     (if length segments < 2 then segments
      else hd segments # filter (\<lambda>s. s \<noteq> []) (butlast (tl segments)) @ [last segments])"

definition resolve_segments :: "string list \<Rightarrow> string list" where
  \<comment> \<open>the loop over the segments: \<open>..\<close> pops (and is ignored on an empty list), \<open>.\<close> is skipped\<close>
  "resolve_segments segments =
     foldl (\<lambda>resolved seg.
              if seg = ''..'' then butlast resolved
              else if seg = ''.'' then resolved
              else resolved @ [seg]) [] segments"

definition urljoin :: "string \<Rightarrow> string \<Rightarrow> exn + string" where
  "urljoin base url =
     (if base = [] then Inr url
      else if url = [] then Inr base
      else case urlparse base [] of
        Inl e \<Rightarrow> Inl e
      | Inr (bscheme, bnetloc, bpath, bparams, bquery, bfragment) \<Rightarrow>
        (case urlparse url bscheme of
           Inl e \<Rightarrow> Inl e
         | Inr (scheme, netloc, path, params, query, fragment) \<Rightarrow>
             if scheme \<noteq> bscheme \<or> scheme \<notin> set uses_relative then Inr url
             else if scheme \<in> set uses_netloc \<and> netloc \<noteq> []
               then Inr (urlunparse (scheme, netloc, path, params, query, fragment))
             else
               let netloc = (if scheme \<in> set uses_netloc then bnetloc else netloc) in
               if path = [] \<and> params = []
               then Inr (urlunparse (scheme, netloc, bpath, bparams,
                                     (if query = [] then bquery else query), fragment))
               else
                 let base_parts = split_on (CHR ''/'') bpath;
                     base_parts = (if last base_parts \<noteq> [] then butlast base_parts
                                   else base_parts);
                     segments = (if take 1 path = ''/'' then split_on (CHR ''/'') path
                                 else drop_empty_middle (base_parts @ split_on (CHR ''/'') path));
                     resolved_path = resolve_segments segments;
                     resolved_path = (if last segments \<in> {''.'', ''..''}
                                      then resolved_path @ [[]] else resolved_path);
                     joined = str_join ''/'' resolved_path
                 in Inr (urlunparse (scheme, netloc, (if joined = [] then ''/'' else joined),
                                     params, query, fragment))))"

section \<open>scrape.py: the two parsers\<close>

text \<open>
  \<open>parse_list_item\<close> raises AttributeError where the source calls a method on the None
  that a failed \<open>find\<close> returned. \<open>product_page_fields\<close> is the body of the try statement
  of \<open>parse_product_page\<close>, and \<open>table_rows\<close> the loop over the rows of the attribute
  table in it; \<open>parse_product_page\<close> turns every exception of that body that
  \<open>except Exception\<close> catches into the empty dict.
\<close>

definition BASE :: string where
  "BASE = ''http://books.toscrape.com/''"

definition parse_list_item :: "tag \<Rightarrow> string \<Rightarrow> exn + book" where
  "parse_list_item article page_base_url =
     (case find_tag ''h3'' article of
        None \<Rightarrow> Inl AttributeError
      | Some h3 \<Rightarrow>
     (case find_tag ''a'' h3 of
        None \<Rightarrow> Inl AttributeError
      | Some a \<Rightarrow>
     (let title = strip (tag_get a ''title'' []);
          relative_link = tag_get a ''href'' []
      in case urljoin page_base_url relative_link of
        Inl e \<Rightarrow> Inl e
      | Inr product_link \<Rightarrow>
     (let price = (case find_class ''p'' ''price_color'' article of
                     Some price_tag \<Rightarrow> strip (tag_text price_tag) | None \<Rightarrow> []);
          availability = (case find_class ''p'' ''instock availability'' article of
                            Some availability_tag \<Rightarrow> strip (tag_text availability_tag)
                          | None \<Rightarrow> []);
          rating_class = (case find_class ''p'' ''star-rating'' article of
                            Some rating_p \<Rightarrow> tag_class rating_p | None \<Rightarrow> []);
          rating = filter (\<lambda>c. c \<noteq> ''star-rating'') rating_class;
          rating = (case rating of c # cs \<Rightarrow> c | [] \<Rightarrow> []);
          img_src = (case find_tag ''img'' article of
                       Some img_tag \<Rightarrow> tag_get img_tag ''src'' [] | None \<Rightarrow> [])
      in case urljoin page_base_url img_src of
        Inl e \<Rightarrow> Inl e
      | Inr img_url \<Rightarrow>
          Inr [(''title'', Some title),
               (''product_page_url'', Some product_link),
               (''price_text'', Some price),
               (''availability_text'', Some availability),
               (''rating_text'', Some rating),
               (''image_url'', Some img_url)]))))"

fun table_rows :: "tag list \<Rightarrow> book \<Rightarrow> exn + book" where
  "table_rows [] info = Inr info"
| "table_rows (row # rows) info =
     (case find_tag ''th'' row of
        None \<Rightarrow> Inl AttributeError
      | Some th \<Rightarrow>
          (case find_tag ''td'' row of
             None \<Rightarrow> Inl AttributeError
           | Some td \<Rightarrow>
               table_rows rows (dict_set (strip (tag_text th)) (Some (strip (tag_text td))) info)))"

definition product_page_fields :: "tag \<Rightarrow> string \<Rightarrow> exn + book" where
  "product_page_fields soup final_url =
     (let breadcrumbs = select_breadcrumbs soup;
          category = (if 3 \<le> length breadcrumbs
                      then Some (strip (tag_text (breadcrumbs ! 2))) else None);
          desc = (case select_one_id ''product_description'' soup of
                    None \<Rightarrow> []
                  | Some (desc_tag, following) \<Rightarrow>
                      (case find_next_sibling ''p'' following of
                         None \<Rightarrow> []
                       | Some p \<Rightarrow> strip (tag_text p)))
      in case (case find_class ''table'' ''table table-striped'' soup of
                 None \<Rightarrow> Inr []
               | Some table \<Rightarrow> table_rows (find_all ''tr'' table) []) of
           Inl e \<Rightarrow> Inl e
         | Inr info \<Rightarrow>
             Inr (dict_set ''fetched_url'' (Some final_url)
                    (dict_update [(''category'', category), (''description'', Some desc)] info)))"

definition parse_product_page :: "env \<Rightarrow> string \<Rightarrow> world \<Rightarrow> (exn + book) \<times> world" where
  "parse_product_page env product_url w =
     (case get_soup_and_url env product_url 4 1 w of
        (Inl e, w1) \<Rightarrow> (Inl e, w1)
      | (Inr None, w1) \<Rightarrow> (Inr [], w1)
      | (Inr (Some (soup, final_url)), w1) \<Rightarrow>
          (case product_page_fields soup final_url of
             Inr detail \<Rightarrow> (Inr detail, w1)
           | Inl e \<Rightarrow> if e = KeyboardInterrupt then (Inl e, w1) else (Inr [], w1)))"

section \<open>scrape.py: the tabular export\<close>

text \<open>
  \<open>csv.DictWriter\<close> with its defaults: a row dict with a key outside the field names is a
  ValueError, a missing key is written as the empty string, and so is None. A field is
  quoted when it holds a comma, a quote or a line break; a row of one empty field is
  written as a pair of quotes; every row ends with CR LF.
\<close>

definition csv_field :: "string \<Rightarrow> string" where
  "csv_field s =
     (if \<exists>c \<in> set s. c \<in> {CHR '','', quote_chr, CHR 0x0D, CHR 0x0A}
      then quote_chr # concat (map (\<lambda>c. if c = quote_chr then [quote_chr, quote_chr] else [c]) s)
           @ [quote_chr]
      else s)"

definition csv_line :: "string list \<Rightarrow> string" where
  "csv_line cells =
     (if cells = [[]] then [quote_chr, quote_chr] else str_join '','' (map csv_field cells))
     @ [CHR 0x0D, CHR 0x0A]"

definition dict_to_list :: "string list \<Rightarrow> book \<Rightarrow> exn + string list" where
  \<comment> \<open>the cells of one row, in the order of the field names\<close>
  "dict_to_list fieldnames rowdict =
     (if \<exists>k \<in> set (map fst rowdict). k \<notin> set fieldnames then Inl ValueError
      else Inr (map (\<lambda>key. case map_of rowdict key of
                             None \<Rightarrow> []
                           | Some None \<Rightarrow> []
                           | Some (Some v) \<Rightarrow> v) fieldnames))"

fun writerows :: "string list \<Rightarrow> book list \<Rightarrow> world \<Rightarrow> (exn + unit) \<times> world" where
  \<comment> \<open>the loop \<open>for row in all_books: writer.writerow(row)\<close>\<close>
  "writerows fieldnames [] w = (Inr (), w)"
| "writerows fieldnames (row # rows) w =
     (case dict_to_list fieldnames row of
        Inl e \<Rightarrow> (Inl e, w)
      | Inr cells \<Rightarrow> writerows fieldnames rows (file_write RAW_CSV (csv_line cells) w))"

definition safe_write_csv :: "book list \<Rightarrow> world \<Rightarrow> (exn + unit) \<times> world" where
  "safe_write_csv all_books w =
     (if all_books = [] then (Inr (), w)
      else
        let keys = sort (remdups (concat (map (map fst) all_books)));
            w1 = open_w RAW_CSV w;
            w2 = file_write RAW_CSV (csv_line keys) w1
        in writerows keys all_books w2)"

section \<open>scrape.py: the crawl\<close>

function str_nat :: "nat \<Rightarrow> string" where
  "str_nat n = (if n < 10 then [char_of (48 + n)] else str_nat (n div 10) @ [char_of (48 + n mod 10)])"
  by pat_completeness auto
termination
  by (relation "measure id") auto

declare str_nat.simps [simp del]

definition str_int :: "int \<Rightarrow> string" where
  \<comment> \<open>the decimal text of an integer, as an f-string formats it\<close>
  "str_int i = (if i < 0 then CHR ''-'' # str_nat (nat (- i)) else str_nat (nat i))"

definition polite_pause :: "real \<Rightarrow> real \<Rightarrow> env \<Rightarrow> world \<Rightarrow> (exn + unit) \<times> world" where
  \<comment> \<open>\<open>time.sleep(random.uniform(a, b))\<close>\<close>
  "polite_pause a b env w =
     (let (secs, w1) = random_uniform a b env w
      in case time_sleep secs w1 of
           Inl e \<Rightarrow> (Inl e, w1)
         | Inr w2 \<Rightarrow> (Inr (), w2))"

definition load_existing :: "world \<Rightarrow> book list" where
  \<comment> \<open>the start of \<open>scrape_all\<close>: \<open>all_books\<close> is empty unless the checkpoint exists and loads\<close>
  "load_existing w =
     (case files w RAW_JSON of
        None \<Rightarrow> []
      | Some text \<Rightarrow> (case json_loads text of Inr loaded \<Rightarrow> loaded | Inl e \<Rightarrow> []))"

text \<open>
  \<open>process_article\<close> is the body of the loop over the articles of a page: the try
  statement, whose handler catches everything but a KeyboardInterrupt, and the flush
  every 20 items after it. The subscript \<open>item["product_page_url"]\<close> finds its key in every
  dict \<open>parse_list_item\<close> returns; its KeyError branch is there for completeness.
\<close>

definition process_article ::
  "env \<Rightarrow> tag \<Rightarrow> string \<Rightarrow> book list \<Rightarrow> world \<Rightarrow> (exn + unit) \<times> book list \<times> world" where
  "process_article env art page_base all_books w =
     (case (case parse_list_item art page_base of
              Inl e \<Rightarrow> (Inl e, all_books, w)
            | Inr item \<Rightarrow>
                (case map_of item ''product_page_url'' of
                   Some (Some product_url) \<Rightarrow>
                     (case parse_product_page env product_url w of
                        (Inl e, w1) \<Rightarrow> (Inl e, all_books, w1)
                      | (Inr detail, w1) \<Rightarrow>
                          (case polite_pause 0.4 1.2 env w1 of
                             (r, w2) \<Rightarrow> (r, all_books @ [dict_update item detail], w2)))
                 | _ \<Rightarrow> (Inl KeyError, all_books, w))) of
        (r, all_books1, w1) \<Rightarrow>
          if r = Inl KeyboardInterrupt then (Inl KeyboardInterrupt, all_books1, w1)
          else if int (length all_books1) mod 20 = 0
            then (Inr (), all_books1, safe_write_json_partial all_books1 w1)
            else (Inr (), all_books1, w1))"

fun for_articles ::
  "env \<Rightarrow> tag list \<Rightarrow> string \<Rightarrow> book list \<Rightarrow> world \<Rightarrow> (exn + unit) \<times> book list \<times> world" where
  "for_articles env [] page_base all_books w = (Inr (), all_books, w)"
| "for_articles env (art # arts) page_base all_books w =
     (case process_article env art page_base all_books w of
        (Inl e, all_books1, w1) \<Rightarrow> (Inl e, all_books1, w1)
      | (Inr u, all_books1, w1) \<Rightarrow> for_articles env arts page_base all_books1 w1)"

function page_loop ::
  "env \<Rightarrow> int \<Rightarrow> int \<Rightarrow> book list \<Rightarrow> world \<Rightarrow> (exn + unit) \<times> book list \<times> world" where
  "page_loop env max_pages page all_books w =
     (if max_pages < page then (Inr (), all_books, w)
      else
        case urljoin BASE (''catalogue/page-'' @ str_int page @ ''.html'') of
          Inl e \<Rightarrow> (Inl e, all_books, w)
        | Inr page_url \<Rightarrow>
            (case get_soup_and_url env page_url 4 1 w of
               (Inl e, w1) \<Rightarrow> (Inl e, all_books, w1)
             | (Inr None, w1) \<Rightarrow> (Inr (), all_books, w1)
             | (Inr (Some (soup, page_final_url)), w1) \<Rightarrow>
                 if select_product_pods soup = [] then (Inr (), all_books, w1)
                 else
                   (case for_articles env (select_product_pods soup)
                           (if page_final_url = [] then BASE else page_final_url)
                           all_books w1 of
                      (Inl e, all_books2, w2) \<Rightarrow> (Inl e, all_books2, w2)
                    | (Inr u, all_books2, w2) \<Rightarrow>
                        (case polite_pause 0.8 2.5 env w2 of
                           (Inl e, w3) \<Rightarrow> (Inl e, all_books2, w3)
                         | (Inr u', w3) \<Rightarrow> page_loop env max_pages (page + 1) all_books2 w3))))"
  by pat_completeness auto
termination
  by (relation "measure (\<lambda>(env, max_pages, page, all_books, w). nat (max_pages + 1 - page))")
     auto

declare page_loop.simps [simp del]

definition scrape_all :: "env \<Rightarrow> int \<Rightarrow> world \<Rightarrow> (exn + unit) \<times> world" where
  "scrape_all env max_pages w =
     (case page_loop env max_pages 1 (load_existing w) w of
        (Inl e, all_books, w1) \<Rightarrow> (Inl e, w1)
      | (Inr u, all_books, w1) \<Rightarrow> safe_write_csv all_books (safe_write_json_partial all_books w1))"

text \<open>
  The \<open>__main__\<close> block runs at module level, where \<open>locals()\<close> is the module's namespace:
  the names the imports, the assignments and the \<open>def\<close> statements of the file bind.
  \<open>all_books\<close> is a local variable of \<open>scrape_all\<close> and is not one of them.
\<close>

datatype pyobj = Module | Function | Str string | PathObj string | Dict | Books "book list"

definition module_namespace :: "(string \<times> pyobj) list" where
  "module_namespace =
     [(''requests'', Module), (''BeautifulSoup'', Function), (''time'', Module),
      (''random'', Module), (''json'', Module), (''csv'', Module), (''logging'', Module),
      (''traceback'', Module), (''urljoin'', Function), (''Path'', Function),
      (''tqdm'', Function), (''BASE'', Str BASE), (''DATA_DIR'', PathObj DATA_DIR),
      (''RAW_JSON'', PathObj RAW_JSON), (''RAW_CSV'', PathObj RAW_CSV), (''HEADERS'', Dict),
      (''get_soup_and_url'', Function), (''parse_list_item'', Function),
      (''parse_product_page'', Function), (''safe_write_json_partial'', Function),
      (''safe_write_csv'', Function), (''scrape_all'', Function)]"

definition main :: "env \<Rightarrow> world \<Rightarrow> (exn + unit) \<times> world" where
  "main env w =
     (case scrape_all env 1000 w of
        (Inl e, w1) \<Rightarrow>
          if e = KeyboardInterrupt then
            (case map_of module_namespace ''all_books'' of
               Some (Books all_books) \<Rightarrow>
                 (case safe_write_csv all_books (safe_write_json_partial all_books w1) of
                    (Inl e', w2) \<Rightarrow> (Inl e', w2)
                  | (Inr u, w2) \<Rightarrow> (Inl KeyboardInterrupt, w2))
             | _ \<Rightarrow> (Inl KeyboardInterrupt, w1))
          else (Inl e, w1)
      | (Inr u, w1) \<Rightarrow> (Inr u, w1))"

subsection \<open>A run that is interrupted after its first record\<close>

text \<open>
  One listing page with one item, whose detail page has no markup at all; the request for
  the second listing page is interrupted from the keyboard. Nothing is on disk at the start.
\<close>

definition example_pod :: tag where
  "example_pod =
     Tag ''article'' [''product_pod''] []
       [Tag ''h3'' [] [] [Tag ''a'' [] [(''href'', ''a/index.html''), (''title'', ''A'')] []]]"

definition example_listing :: tag where
  "example_listing = Tag ''[document]'' [] [] [example_pod]"

definition example_detail :: tag where
  "example_detail = Tag ''[document]'' [] [] []"

definition interrupted_run :: env where
  "interrupted_run =
     \<lparr>net = (\<lambda>n url.
              if n = 0 then
                Returns (Response 200 example_listing ''http://books.toscrape.com/catalogue/page-1.html'')
              else if n = 1 then
                Returns (Response 200 example_detail ''http://books.toscrape.com/catalogue/a/index.html'')
              else Interrupted),
      rnd = (\<lambda>n. 0)\<rparr>"

definition fresh_world :: world where
  "fresh_world = \<lparr>files = Map.empty, clock = 0, draws = 0, sleeps = []\<rparr>"

text \<open>
  A site that answers no request at all.
\<close>

definition offline :: env where
  "offline = \<lparr>net = (\<lambda>n url. Raises), rnd = (\<lambda>n. 0)\<rparr>"

text \<open>
  A world in which an export of an earlier run is on disk and no checkpoint is.
\<close>

definition stale_world :: world where
  "stale_world =
     \<lparr>files = [RAW_CSV \<mapsto> ''title'' @ [CHR 0x0D, CHR 0x0A] @ ''Old'' @ [CHR 0x0D, CHR 0x0A]],
      clock = 0, draws = 0, sleeps = []\<rparr>"



section \<open>Properties of the cleaning stage\<close>

lemmas clean_defs =
  parse_price_def parse_availability_def rating_word_to_int_def RATING_MAP_def
  re_search_run_def price_char_def is_digit_def py_float_def dec_def digit_val_def

text \<open>
  C5, as the claim states it, fails at the empty availability text: the guard
  \<open>if not avail_text: return None\<close> answers None (absent), not 0.
\<close>

theorem C5_empty_availability_is_absent:
  "parse_availability '''' \<noteq> Some 0"
  by (simp add: parse_availability_def)

lemma re_search_run_none:
  "(\<forall>c \<in> set s. \<not> cls c) \<Longrightarrow> re_search_run cls s = None"
proof -
  assume "\<forall>c \<in> set s. \<not> cls c"
  then have "dropWhile (\<lambda>c. \<not> cls c) s = []" by simp
  then show ?thesis unfolding re_search_run_def by (simp only: list.case)
qed

text \<open>
  C5 (amended): the price text of a pound sign followed by 51.77 gives 51.77 and the empty
  price text gives absent; \<open>In stock (22 available)\<close> gives 22, the empty availability text
  gives absent, and every non-empty availability text without a digit gives 0; the rating
  words Three and Zero give 3 and 0, the empty word gives absent.
\<close>

theorem C5_field_extraction:
  "parse_price (CHR 0xA3 # ''51.77'') = Inr (Some 51.77)
   \<and> parse_price '''' = Inr None
   \<and> parse_availability ''In stock (22 available)'' = Some 22
   \<and> parse_availability '''' = None
   \<and> (avail_text \<noteq> [] \<and> (\<forall>c \<in> set avail_text. \<not> is_digit c)
        \<longrightarrow> parse_availability avail_text = Some 0)
   \<and> rating_word_to_int ''Three'' = Some 3
   \<and> rating_word_to_int ''Zero'' = Some 0
   \<and> rating_word_to_int '''' = None"
proof -
  have "avail_text \<noteq> [] \<and> (\<forall>c \<in> set avail_text. \<not> is_digit c)
        \<longrightarrow> parse_availability avail_text = Some 0"
    by (simp add: parse_availability_def re_search_run_none)
  moreover have "parse_price (CHR 0xA3 # ''51.77'') = Inr (Some 51.77)"
    by (simp add: clean_defs)
  moreover have "parse_availability ''In stock (22 available)'' = Some 22"
    by (simp add: clean_defs)
  moreover have "parse_price '''' = Inr None \<and> parse_availability '''' = None"
    by (simp add: parse_price_def parse_availability_def)
  moreover have "rating_word_to_int ''Three'' = Some 3 \<and> rating_word_to_int ''Zero'' = Some 0
                 \<and> rating_word_to_int '''' = None"
    by (simp add: rating_word_to_int_def RATING_MAP_def)
  ultimately show ?thesis by blast
qed

theorem C5_field_extraction_witness:
  "''Out of stock'' \<noteq> [] \<and> list_all (\<lambda>c. \<not> is_digit c) ''Out of stock''
   \<and> parse_availability ''Out of stock'' = Some 0"
  using C5_field_extraction [of "''Out of stock''"]
  by (simp add: is_digit_def)

text \<open>
  C10: \<open>parse_price\<close> is not total. On \<open>abc.\<close> the pattern matches the lone dot, and
  \<open>float(".")\<close> raises ValueError, where the docstring promises None for an invalid text.
\<close>

theorem C10_parse_price_raises:
  "parse_price ''abc.'' = Inl ValueError"
  by (simp add: clean_defs)

section \<open>Properties of the checkpoint store\<close>

lemma RAW_JSON_eq: "RAW_JSON = ''data/raw_books.json''"
  by (simp add: RAW_JSON_def DATA_DIR_def path_join_def)

lemma RAW_CSV_eq: "RAW_CSV = ''data/raw_books.csv''"
  by (simp add: RAW_CSV_def DATA_DIR_def path_join_def)

lemma tmp_path_lit: "with_suffix ''data/raw_books.json'' ''.tmp'' = ''data/raw_books.tmp''"
  by (simp add: with_suffix_def path_suffix_def path_name_def)

lemma tmp_path_eq: "with_suffix RAW_JSON ''.tmp'' = ''data/raw_books.tmp''"
  by (simp add: RAW_JSON_eq tmp_path_lit)

lemma files_safe_write_json_partial:
  "files (safe_write_json_partial all_books w) =
     ((files w)(''data/raw_books.tmp'' := None))(RAW_JSON \<mapsto> json_dumps all_books)"
  by (simp add: safe_write_json_partial_def tmp_path_eq path_replace_def file_write_def open_w_def)

text \<open>
  C2: the save writes the whole serialisation to the temporary sibling
  \<open>data/raw_books.tmp\<close> and then renames it over \<open>data/raw_books.json\<close>. At every crash
  point before the rename has happened the destination holds what it held before the call;
  once the temporary file is written it holds the full serialisation; after the rename
  the destination holds the full serialisation and the temporary file is gone.
\<close>

theorem C2_checkpoint_write_is_atomic:
  "(cp \<noteq> Completed \<longrightarrow>
      files (safe_write_json_partial_upto cp all_books w) RAW_JSON = files w RAW_JSON)
   \<and> files (safe_write_json_partial_upto After_dump all_books w) (with_suffix RAW_JSON ''.tmp'')
       = Some (json_dumps all_books)
   \<and> with_suffix RAW_JSON ''.tmp'' \<noteq> RAW_JSON
   \<and> safe_write_json_partial_upto Completed all_books w = safe_write_json_partial all_books w
   \<and> files (safe_write_json_partial all_books w) RAW_JSON = Some (json_dumps all_books)
   \<and> files (safe_write_json_partial all_books w) (with_suffix RAW_JSON ''.tmp'') = None"
  by (cases cp)
     (simp_all add: safe_write_json_partial_upto_def safe_write_json_partial_def tmp_path_lit
        path_replace_def file_write_def open_w_def RAW_JSON_eq)

theorem C2_checkpoint_write_is_atomic_witness:
  "After_dump \<noteq> Completed
   \<and> files (safe_write_json_partial_upto After_dump [[(''title'', Some ''B'')]]
        \<lparr>files = [RAW_JSON \<mapsto> json_dumps [[(''title'', Some ''A'')]]],
         clock = 0, draws = 0, sleeps = []\<rparr>) RAW_JSON
       = Some (json_dumps [[(''title'', Some ''A'')]])"
  using C2_checkpoint_write_is_atomic
    [of After_dump "[[(''title'', Some ''B'')]]"
        "\<lparr>files = [RAW_JSON \<mapsto> json_dumps [[(''title'', Some ''A'')]]],
          clock = 0, draws = 0, sleeps = []\<rparr>"]
  by simp

section \<open>Properties of the fetcher\<close>

lemma random_value_range: "0 \<le> random_value env n \<and> random_value env n < 1"
proof -
  have "rnd env n mod 2 ^ 53 < (2::nat) ^ 53" by simp
  then have "real (rnd env n mod 2 ^ 53) < 2 ^ 53"
    by (metis of_nat_less_iff of_nat_numeral of_nat_power)
  then show ?thesis by (simp add: random_value_def)
qed

lemma get_soup_loop_exhausts:
  assumes fail: "\<forall>n. case net env n url of Returns resp \<Rightarrow> status_code resp \<noteq> 200
                      | Raises \<Rightarrow> True | Interrupted \<Rightarrow> False"
    and d: "0 \<le> delay"
  shows "nat (max_retries + 1 - attempt) = k \<Longrightarrow> delay * 2 ^ k \<le> 9000000000 \<Longrightarrow>
         get_soup_loop env url max_retries attempt delay w =
           (Inr None,
            w\<lparr>clock := clock w + k, draws := draws w + k,
              sleeps := sleeps w
                @ map (\<lambda>i. delay * 2 ^ i * (1 + random_value env (draws w + i))) [0..<k]\<rparr>)"
  using d
proof (induction k arbitrary: attempt delay w)
  case 0
  then have "max_retries < attempt" by simp
  then show ?case by simp
next
  case (Suc k)
  then have le: "\<not> max_retries < attempt" by auto
  have k: "nat (max_retries + 1 - (attempt + 1)) = k" using Suc.prems by auto
  let ?j = "random_value env (draws w)"
  have nonneg: "\<not> delay * (1 + ?j) < 0"
    using Suc.prems(3) random_value_range[of env "draws w"] by (simp add: not_less)
  have "delay * (1 + ?j) \<le> delay * 2"
    using Suc.prems(3) random_value_range[of env "draws w"] by (intro mult_left_mono) auto
  moreover have "delay * 2 \<le> delay * 2 ^ Suc k"
    using Suc.prems(3) by (intro mult_left_mono) auto
  ultimately have "delay * (1 + ?j) \<le> 9000000000"
    using Suc.prems(2) by linarith
  then have small: "\<not> 2 ^ 63 \<le> delay * (1 + ?j) * 10 ^ 9"
    by simp
  obtain out where out: "net env (clock w) url = out" by simp
  have tr: "(case out of Interrupted \<Rightarrow> Some (Inl KeyboardInterrupt) | Raises \<Rightarrow> None
               | Returns resp \<Rightarrow> if status_code resp \<noteq> 200 then None
                   else Some (Inr (Some (resp_soup resp, resp_url resp))))
            = (None :: (exn + (tag \<times> string) option) option)"
    using fail[rule_format, of "clock w"] out by (cases out) auto
  let ?w3 = "w\<lparr>clock := Suc (clock w), draws := Suc (draws w),
               sleeps := sleeps w @ [delay * (1 + ?j)]\<rparr>"
  have step: "get_soup_loop env url max_retries attempt delay w =
     get_soup_loop env url max_retries (attempt + 1) (delay * 2) ?w3"
    apply (subst get_soup_loop.simps)
    using le nonneg small tr out
    by (simp add: requests_get_def random_random_def time_sleep_def del: get_soup_loop.simps)
  have ih: "get_soup_loop env url max_retries (attempt + 1) (delay * 2) ?w3 =
      (Inr None, ?w3\<lparr>clock := clock ?w3 + k, draws := draws ?w3 + k,
              sleeps := sleeps ?w3
                @ map (\<lambda>i. (delay * 2) * 2 ^ i * (1 + random_value env (draws ?w3 + i))) [0..<k]\<rparr>)"
    using Suc.IH[OF k, of "delay * 2" ?w3] Suc.prems(2,3) by simp
  have m: "map (\<lambda>i. delay * 2 ^ i * (1 + random_value env (draws w + i))) [0..<Suc k]
      = (delay * (1 + ?j))
        # map (\<lambda>i. (delay * 2) * 2 ^ i * (1 + random_value env (Suc (draws w) + i))) [0..<k]"
    by (simp add: upt_conv_Cons map_Suc_upt[symmetric] del: upt_Suc)
  show ?case
    unfolding step ih m by simp
qed

lemma backoff_sorted:
  assumes "0 \<le> (bf::real)"
  shows "sorted (map (\<lambda>i. bf * 2 ^ i * (1 + random_value env (d + i))) [0..<k])"
proof -
  have "\<And>i. bf * 2 ^ i * (1 + random_value env (d + i))
        \<le> bf * 2 ^ Suc i * (1 + random_value env (d + Suc i))"
  proof -
    fix i
    have a: "bf * 2 ^ i * (1 + random_value env (d + i)) \<le> bf * 2 ^ i * 2"
      using random_value_range[of env "d + i"] assms
      by (intro mult_left_mono) auto
    have b: "bf * 2 ^ Suc i * 1 \<le> bf * 2 ^ Suc i * (1 + random_value env (d + Suc i))"
      using random_value_range[of env "d + Suc i"] assms
      by (intro mult_left_mono) auto
    show "bf * 2 ^ i * (1 + random_value env (d + i))
        \<le> bf * 2 ^ Suc i * (1 + random_value env (d + Suc i))"
      using a b by simp
  qed
  then show ?thesis
    by (simp add: sorted_iff_nth_Suc del: power_Suc)
qed

text \<open>
  C4: when no request for the URL ever succeeds (each one raises or answers with a status
  other than 200), the retry count and the backoff factor are not negative, and the
  backoff factor doubled \<open>max_retries\<close> times stays within 9e9 seconds (so that no delay
  reaches the duration \<open>time.sleep\<close> refuses), \<open>get_soup_and_url\<close> issues exactly
  \<open>max_retries\<close> requests and returns \<open>(None, None)\<close> instead of raising. It sleeps once after each failed attempt; the delay after attempt
  \<open>i + 1\<close> is \<open>backoff_factor * 2\<^sup>i * (1 + jitter)\<close> with the jitter in \<open>[0, 1)\<close>, and the
  delays never decrease.
\<close>

theorem C4_fetch_exhausts_retries:
  assumes "\<forall>n. case net env n url of Returns resp \<Rightarrow> status_code resp \<noteq> 200
                 | Raises \<Rightarrow> True | Interrupted \<Rightarrow> False"
    and "0 \<le> max_retries" and "0 \<le> backoff_factor"
    and "backoff_factor * 2 ^ nat max_retries \<le> 9000000000"
  shows "\<exists>w'. get_soup_and_url env url max_retries backoff_factor w = (Inr None, w')
           \<and> clock w' = clock w + nat max_retries
           \<and> files w' = files w
           \<and> sleeps w' = sleeps w
               @ map (\<lambda>i. backoff_factor * 2 ^ i * (1 + random_value env (draws w + i)))
                   [0..<nat max_retries]
           \<and> (\<forall>i < nat max_retries. 0 \<le> random_value env (draws w + i)
                                    \<and> random_value env (draws w + i) < 1)
           \<and> sorted (drop (length (sleeps w)) (sleeps w'))"
proof -
  have k: "nat (max_retries + 1 - 1) = nat max_retries" by simp
  show ?thesis
    unfolding get_soup_and_url_def
      get_soup_loop_exhausts[OF assms(1) assms(3) k assms(4), of w]
    using backoff_sorted[OF assms(3)] random_value_range
    by simp
qed

theorem C4_fetch_exhausts_retries_witness:
  "(\<forall>n. case net \<lparr>net = (\<lambda>n u. Raises), rnd = (\<lambda>n. 0)\<rparr> n ''http://books.toscrape.com/'' of
          Returns resp \<Rightarrow> status_code resp \<noteq> 200 | Raises \<Rightarrow> True | Interrupted \<Rightarrow> False)
   \<and> (0::int) \<le> 4 \<and> (0::real) \<le> 1 \<and> (1::real) * 2 ^ nat 4 \<le> 9000000000
   \<and> (\<exists>w'. get_soup_and_url \<lparr>net = (\<lambda>n u. Raises), rnd = (\<lambda>n. 0)\<rparr>
              ''http://books.toscrape.com/'' 4 1
              \<lparr>files = Map.empty, clock = 0, draws = 0, sleeps = []\<rparr> = (Inr None, w')
          \<and> clock w' = 4 \<and> sleeps w' = [1, 2, 4, 8])"
  using C4_fetch_exhausts_retries
    [of "\<lparr>net = (\<lambda>n u. Raises), rnd = (\<lambda>n. 0)\<rparr>" "''http://books.toscrape.com/''" 4 1
        "\<lparr>files = Map.empty, clock = 0, draws = 0, sleeps = []\<rparr>"]
  by (auto simp add: random_value_def upt_rec)

section \<open>Properties of the link joiner\<close>

text \<open>
  The model of \<open>urljoin\<close> raises only for a bracket in one of its two arguments.
\<close>

lemma urlsplit_Inl:
  assumes "urlsplit u d = Inl e"
  shows "CHR ''['' \<in> set u \<or> CHR '']'' \<in> set u"
proof -
  define url where "url = filter (\<lambda>c. c \<notin> {CHR 0x09, CHR 0x0A, CHR 0x0D})
                  (dropWhile (\<lambda>c. (of_char c :: nat) \<le> 32) u)"
  define pre where "pre = takeWhile (\<lambda>c. c \<noteq> CHR '':'') url"
  define has_scheme where "has_scheme = (CHR '':'' \<in> set url \<and> pre \<noteq> []
                        \<and> (is_lower (hd pre) \<or> is_upper (hd pre)) \<and> list_all scheme_char pre)"
  define url1 where "url1 = (if has_scheme then drop (Suc (length pre)) url else url)"
  define netloc where "netloc = (if take 2 url1 = ''//''
                    then takeWhile (\<lambda>c. c \<notin> set ''/?#'') (drop 2 url1) else [])"
  have sub: "set netloc \<subseteq> set u"
  proof -
    have "set url \<subseteq> set u"
      unfolding url_def by (auto dest: set_dropWhileD)
    moreover have "set url1 \<subseteq> set url"
      unfolding url1_def by (auto dest: in_set_dropD)
    moreover have "set netloc \<subseteq> set url1"
      unfolding netloc_def by (auto dest!: set_takeWhileD in_set_dropD)
    ultimately show ?thesis by blast
  qed
  have "CHR ''['' \<in> set netloc \<or> CHR '']'' \<in> set netloc"
    using assms
    unfolding urlsplit_def Let_def url_def[symmetric] pre_def[symmetric]
      has_scheme_def[symmetric] url1_def[symmetric] netloc_def[symmetric]
    by (auto split: prod.splits if_splits)
  then show ?thesis using sub by blast
qed

lemma urlparse_Inl:
  assumes "urlparse u d = Inl e"
  shows "CHR ''['' \<in> set u \<or> CHR '']'' \<in> set u"
  using assms urlsplit_Inl[of u d]
  by (auto simp: urlparse_def split: sum.splits prod.splits if_splits)

lemma urljoin_Inl:
  assumes "urljoin base url = Inl e"
  shows "CHR ''['' \<in> set base \<or> CHR '']'' \<in> set base \<or> CHR ''['' \<in> set url \<or> CHR '']'' \<in> set url"
proof -
  have ne: "base \<noteq> []" "url \<noteq> []" using assms by (auto simp: urljoin_def split: if_splits)
  show ?thesis
  proof (cases "urlparse base []")
    case (Inl a)
    then show ?thesis using urlparse_Inl by blast
  next
    case (Inr bp)
    obtain bscheme bnetloc bpath bparams bquery bfragment where
      bp: "bp = (bscheme, bnetloc, bpath, bparams, bquery, bfragment)" by (cases bp) auto
    show ?thesis
    proof (cases "urlparse url bscheme")
      case (Inl a)
      then show ?thesis using urlparse_Inl by blast
    next
      case Inr2: (Inr p)
      have "\<exists>r. urljoin base url = Inr r"
        unfolding urljoin_def using ne Inr bp Inr2
        by (simp add: Let_def split: prod.splits)
      then show ?thesis using assms by simp
    qed
  qed
qed

section \<open>Properties of the crawl\<close>

lemma get_soup_loop_success:
  assumes "net env (clock w) url = Returns resp" and "status_code resp = 200"
    and "attempt \<le> max_retries"
  shows "get_soup_loop env url max_retries attempt delay w =
           (Inr (Some (resp_soup resp, resp_url resp)), w\<lparr>clock := Suc (clock w)\<rparr>)"
  using assms
  by (subst get_soup_loop.simps) (simp add: requests_get_def del: get_soup_loop.simps)

lemma get_soup_loop_interrupted:
  assumes "net env (clock w) url = Interrupted" and "attempt \<le> max_retries"
  shows "get_soup_loop env url max_retries attempt delay w =
           (Inl KeyboardInterrupt, w\<lparr>clock := Suc (clock w)\<rparr>)"
  using assms
  by (subst get_soup_loop.simps) (simp add: requests_get_def del: get_soup_loop.simps)

lemmas dom_defs = find_tag_def find_class_def find_all_def find_next_sibling_def has_class_def
  select_product_pods_def select_breadcrumbs_def select_one_id_def

lemma pods_example: "select_product_pods example_listing = [example_pod]"
  by (simp add: dom_defs example_listing_def example_pod_def)

lemma str_int_1: "str_int 1 = ''1''"
  by code_simp

lemma str_int_2: "str_int 2 = ''2''"
  by code_simp

lemma parse_example_pod:
  assumes "urljoin base ''a/index.html'' = Inr link" and "urljoin base [] = Inr img"
  shows "parse_list_item example_pod base =
     Inr [(''title'', Some ''A''), (''product_page_url'', Some link), (''price_text'', Some []),
          (''availability_text'', Some []), (''rating_text'', Some []), (''image_url'', Some img)]"
  using assms
  by (simp add: parse_list_item_def dom_defs example_pod_def strip_def is_space_def)

lemma fields_example_detail:
  "product_page_fields example_detail u =
     Inr [(''category'', None), (''description'', Some []), (''fetched_url'', Some u)]"
  by (simp add: product_page_fields_def dom_defs example_detail_def dict_update_def)

lemma no_brackets_BASE: "CHR ''['' \<notin> set BASE \<and> CHR '']'' \<notin> set BASE"
  by (simp add: BASE_def)

lemma page_url_ok:
  assumes "CHR ''['' \<notin> set (str_int page)" and "CHR '']'' \<notin> set (str_int page)"
  shows "\<exists>u. urljoin BASE (''catalogue/page-'' @ str_int page @ ''.html'') = Inr u"
proof (cases "urljoin BASE (''catalogue/page-'' @ str_int page @ ''.html'')")
  case (Inl e)
  from urljoin_Inl[OF Inl] show ?thesis
    using assms no_brackets_BASE by auto
next
  case (Inr u)
  then show ?thesis by blast
qed

lemma polite_pause_ok:
  assumes "0 \<le> a" and "a \<le> b" and "b \<le> 9000000000"
  shows "polite_pause a b env w =
     (Inr (), w\<lparr>draws := Suc (draws w),
                sleeps := sleeps w @ [a + (b - a) * random_value env (draws w)]\<rparr>)"
proof -
  let ?r = "random_value env (draws w)"
  have r: "0 \<le> ?r" "?r < 1" using random_value_range[of env "draws w"] by auto
  have "0 \<le> (b - a) * ?r" using assms r by simp
  then have lo: "\<not> a + (b - a) * ?r < 0" using assms by linarith
  have "(b - a) * ?r \<le> (b - a) * 1" using assms r by (intro mult_left_mono) auto
  then have "(b - a) * ?r \<le> b - a" by simp
  then have "a + (b - a) * ?r \<le> 9000000000" using assms by linarith
  then have hi: "\<not> 2 ^ 63 \<le> (a + (b - a) * ?r) * 10 ^ 9" by simp
  show ?thesis
    using lo hi
    by (simp add: polite_pause_def random_uniform_def random_random_def time_sleep_def)
qed

lemma main_interrupted:
  assumes "page_loop env 1000 1 (load_existing w) w = (Inl KeyboardInterrupt, all_books, w1)"
  shows "main env w = (Inl KeyboardInterrupt, w1)"
  using assms
  by (simp add: main_def scrape_all_def module_namespace_def)

text \<open>
  C1: an interrupt from the keyboard while the crawl loop runs is claimed to make the
  controller write the checkpoint and the export of the current accumulator. In the code the
  handler of the \<open>__main__\<close> block tests \<open>'all_books' in locals()\<close> at module
  level, where the name is never bound, so it writes nothing. In the run
  \<open>interrupted_run\<close> the record titled A has been appended when the interrupt arrives
  during the request for page 2; \<open>main\<close> re-raises the interrupt and neither
  \<open>data/raw_books.json\<close> nor \<open>data/raw_books.csv\<close> exists afterwards.
\<close>

theorem C1_interrupt_loses_appended_record:
  "\<exists>all_books w.
      page_loop interrupted_run 1000 1 (load_existing fresh_world) fresh_world
        = (Inl KeyboardInterrupt, all_books, w)
      \<and> map (\<lambda>b. map_of b ''title'') all_books = [Some (Some ''A'')]
      \<and> main interrupted_run fresh_world = (Inl KeyboardInterrupt, w)
      \<and> files w RAW_JSON = None \<and> files w RAW_CSV = None"
proof -
  let ?b = "''http://books.toscrape.com/catalogue/page-1.html''"
  let ?d = "''http://books.toscrape.com/catalogue/a/index.html''"
  let ?w = "\<lambda>c d s. \<lparr>files = Map.empty, clock = c, draws = d, sleeps = s\<rparr>"
  have load: "load_existing fresh_world = []"
    by (simp add: load_existing_def fresh_world_def)
  obtain p1 where p1: "urljoin BASE ''catalogue/page-1.html'' = Inr p1"
    using page_url_ok[of 1] by (auto simp: str_int_1)
  obtain p2 where p2: "urljoin BASE ''catalogue/page-2.html'' = Inr p2"
    using page_url_ok[of 2] by (auto simp: str_int_2)
  obtain link where link: "urljoin ?b ''a/index.html'' = Inr link"
    using urljoin_Inl[of ?b "''a/index.html''"] by (cases "urljoin ?b ''a/index.html''") auto
  have img: "urljoin ?b [] = Inr ?b"
    by (simp add: urljoin_def)
  have f1: "get_soup_and_url interrupted_run p1 4 1 (?w 0 0 []) =
              (Inr (Some (example_listing, ?b)), ?w (Suc 0) 0 [])"
    unfolding get_soup_and_url_def
    by (subst get_soup_loop_success[where resp = "Response 200 example_listing ?b"])
       (simp_all add: interrupted_run_def)
  let ?item = "[(''title'', Some ''A''), (''product_page_url'', Some link),
                (''price_text'', Some []), (''availability_text'', Some []),
                (''rating_text'', Some []), (''image_url'', Some ?b)]"
  let ?rec = "[(''title'', Some ''A''), (''product_page_url'', Some link),
               (''price_text'', Some []), (''availability_text'', Some []),
               (''rating_text'', Some []), (''image_url'', Some ?b),
               (''category'', None), (''description'', Some []), (''fetched_url'', Some ?d)]"
  have item: "parse_list_item example_pod ?b = Inr ?item"
    by (rule parse_example_pod[OF link img])
  have f2: "get_soup_and_url interrupted_run link 4 1 (?w (Suc 0) 0 []) =
              (Inr (Some (example_detail, ?d)), ?w 2 0 [])"
    unfolding get_soup_and_url_def
    by (subst get_soup_loop_success[where resp = "Response 200 example_detail ?d"])
       (simp_all add: interrupted_run_def)
  have detail: "parse_product_page interrupted_run link (?w (Suc 0) 0 []) =
      (Inr [(''category'', None), (''description'', Some []), (''fetched_url'', Some ?d)],
       ?w 2 0 [])"
    by (simp add: parse_product_page_def f2 fields_example_detail)
  have rv: "random_value interrupted_run n = 0" for n
    by (simp add: random_value_def interrupted_run_def)
  have art: "process_article interrupted_run example_pod ?b [] (?w (Suc 0) 0 []) =
      (Inr (), [?rec], ?w 2 (Suc 0) [2 / 5])"
    by (simp add: process_article_def item detail polite_pause_ok rv dict_update_def)
  have f3: "get_soup_and_url interrupted_run p2 4 1 (?w 2 (Suc (Suc 0)) [2 / 5, 4 / 5]) =
              (Inl KeyboardInterrupt, ?w 3 (Suc (Suc 0)) [2 / 5, 4 / 5])"
    unfolding get_soup_and_url_def
    by (subst get_soup_loop_interrupted) (simp_all add: interrupted_run_def)
  have page2: "page_loop interrupted_run 1000 2 [?rec] (?w 2 (Suc (Suc 0)) [2 / 5, 4 / 5]) =
      (Inl KeyboardInterrupt, [?rec], ?w 3 (Suc (Suc 0)) [2 / 5, 4 / 5])"
    by (subst page_loop.simps) (simp add: str_int_2 p2 f3)
  have page1: "page_loop interrupted_run 1000 1 [] (?w 0 0 []) =
      (Inl KeyboardInterrupt, [?rec], ?w 3 (Suc (Suc 0)) [2 / 5, 4 / 5])"
    by (subst page_loop.simps)
       (simp add: str_int_1 p1 f1 pods_example art polite_pause_ok rv page2)
  have run: "page_loop interrupted_run 1000 1 (load_existing fresh_world) fresh_world =
      (Inl KeyboardInterrupt, [?rec], ?w 3 (Suc (Suc 0)) [2 / 5, 4 / 5])"
    unfolding load using page1 by (simp add: fresh_world_def)
  show ?thesis
    using run main_interrupted[OF run]
    by (simp add: RAW_JSON_eq RAW_CSV_eq)
qed

lemma join_link:
  "urljoin ''http://books.toscrape.com/catalogue/page-1.html'' ''a/index.html''
     = Inr ''http://books.toscrape.com/catalogue/a/index.html''"
  by code_simp

lemma join_empty: "urljoin base [] = Inr base"
  by (simp add: urljoin_def)

lemma table_rows_Inl: "table_rows rows info = Inl e \<Longrightarrow> e = AttributeError"
  by (induction rows arbitrary: info) (auto split: option.splits)

lemma product_page_fields_Inl: "product_page_fields soup u = Inl e \<Longrightarrow> e = AttributeError"
  by (auto simp: product_page_fields_def Let_def split: option.splits sum.splits if_splits
      dest: table_rows_Inl)

lemma dict_update_Nil: "dict_update d [] = d"
  by (simp add: dict_update_def)

lemma clock_safe_write_json_partial: "clock (safe_write_json_partial all_books w) = clock w"
  by (simp add: safe_write_json_partial_def safe_write_json_partial_upto_def Let_def
      open_w_def file_write_def path_replace_def split: option.splits)

lemma offline_fetch:
  "get_soup_and_url offline url 4 1 fresh_world =
     (Inr None, \<lparr>files = Map.empty, clock = 4, draws = 4, sleeps = [1, 2, 4, 8]\<rparr>)"
proof -
  have f: "\<forall>n. case net offline n url of Returns resp \<Rightarrow> status_code resp \<noteq> 200
                      | Raises \<Rightarrow> True | Interrupted \<Rightarrow> False"
    by (simp add: offline_def)
  have k: "nat (4 + 1 - 1) = 4" by simp
  have r: "random_value offline n = 0" for n
    by (simp add: random_value_def offline_def)
  show ?thesis
    unfolding get_soup_and_url_def
    by (subst get_soup_loop_exhausts[OF f _ k]) (simp_all add: r fresh_world_def upt_rec)
qed

text \<open>
  C8: when the listing entry of an item has been parsed and its detail page fails, either
  because the fetch gives up after its own four attempts or because the parsing of the
  fetched page raises, the controller still appends a record for the item: the record is
  the listing item itself, with its six listing fields and no detail field. No further
  request is made for the item.
\<close>

theorem C8_item_kept_on_detail_failure:
  assumes item: "parse_list_item art page_base = Inr item"
    and url: "map_of item ''product_page_url'' = Some (Some product_url)"
    and fail: "get_soup_and_url env product_url 4 1 w = (Inr None, w1)
             \<or> (\<exists>soup final_url e.
                   get_soup_and_url env product_url 4 1 w = (Inr (Some (soup, final_url)), w1)
                 \<and> product_page_fields soup final_url = Inl e)"
  shows "\<exists>w2. process_article env art page_base all_books w
                 = (Inr (), all_books @ [item], w2)
             \<and> clock w2 = clock w1"
proof -
  have detail: "parse_product_page env product_url w = (Inr [], w1)"
    using fail
    by (auto simp: parse_product_page_def dest: product_page_fields_Inl)
  show ?thesis
    by (simp add: process_article_def item url detail polite_pause_ok
        dict_update_Nil clock_safe_write_json_partial)
qed

theorem C8_item_kept_on_detail_failure_witness:
  "parse_list_item example_pod ''http://books.toscrape.com/catalogue/page-1.html''
     = Inr [(''title'', Some ''A''),
            (''product_page_url'', Some ''http://books.toscrape.com/catalogue/a/index.html''),
            (''price_text'', Some []), (''availability_text'', Some []),
            (''rating_text'', Some []),
            (''image_url'', Some ''http://books.toscrape.com/catalogue/page-1.html'')]
   \<and> get_soup_and_url offline ''http://books.toscrape.com/catalogue/a/index.html'' 4 1 fresh_world
       = (Inr None, \<lparr>files = Map.empty, clock = 4, draws = 4, sleeps = [1, 2, 4, 8]\<rparr>)
   \<and> (\<exists>w2. process_article offline example_pod
               ''http://books.toscrape.com/catalogue/page-1.html'' [] fresh_world
         = (Inr (),
            [[(''title'', Some ''A''),
              (''product_page_url'', Some ''http://books.toscrape.com/catalogue/a/index.html''),
              (''price_text'', Some []), (''availability_text'', Some []),
              (''rating_text'', Some []),
              (''image_url'', Some ''http://books.toscrape.com/catalogue/page-1.html'')]],
            w2)
         \<and> clock w2 = 4)"
  using C8_item_kept_on_detail_failure
    [of example_pod "''http://books.toscrape.com/catalogue/page-1.html''"
        "[(''title'', Some ''A''),
          (''product_page_url'', Some ''http://books.toscrape.com/catalogue/a/index.html''),
          (''price_text'', Some []), (''availability_text'', Some []),
          (''rating_text'', Some []),
          (''image_url'', Some ''http://books.toscrape.com/catalogue/page-1.html'')]"
        "''http://books.toscrape.com/catalogue/a/index.html''"
        offline fresh_world
        "\<lparr>files = Map.empty, clock = 4, draws = 4, sleeps = [1, 2, 4, 8]\<rparr>" "[]"]
    parse_example_pod[OF join_link join_empty]
    offline_fetch[of "''http://books.toscrape.com/catalogue/a/index.html''"]
  by simp

section \<open>Properties of the tabular export\<close>

lemma fold_file_write:
  "files w p = Some old \<Longrightarrow>
   fold (\<lambda>row. file_write p (f row)) rows w
     = w\<lparr>files := (files w)(p \<mapsto> old @ concat (map f rows))\<rparr>"
proof (induction rows arbitrary: w old)
  case Nil
  then have "(files w)(p \<mapsto> old) = files w" by (simp add: map_upd_triv)
  then show ?case by simp
next
  case (Cons row rows)
  define w' where "w' = file_write p (f row) w"
  have w': "w' = w\<lparr>files := (files w)(p \<mapsto> old @ f row)\<rparr>"
    using Cons.prems by (simp add: w'_def file_write_def)
  then have "files w' p = Some (old @ f row)" by simp
  from Cons.IH[OF this]
  have "fold (\<lambda>row. file_write p (f row)) rows w'
     = w'\<lparr>files := (files w')(p \<mapsto> (old @ f row) @ concat (map f rows))\<rparr>" .
  also have "\<dots> = w\<lparr>files := (files w)(p \<mapsto> old @ concat (map f (row # rows)))\<rparr>"
    unfolding w' by simp
  finally show ?case
    unfolding w'_def by (simp add: fun_upd_def)
qed

lemma writerows_ok:
  assumes "\<forall>row \<in> set rows. fst ` set row \<subseteq> set fieldnames"
  shows "writerows fieldnames rows w =
     (Inr (), fold (\<lambda>row. file_write RAW_CSV
                 (csv_line (map (\<lambda>key. case map_of row key of Some (Some v) \<Rightarrow> v | _ \<Rightarrow> [])
                               fieldnames))) rows w)"
  using assms
proof (induction rows arbitrary: w)
  case Nil
  then show ?case by simp
next
  case (Cons row rows)
  have "dict_to_list fieldnames row =
      Inr (map (\<lambda>key. case map_of row key of Some (Some v) \<Rightarrow> v | _ \<Rightarrow> []) fieldnames)"
    using Cons.prems
    by (auto simp: dict_to_list_def split: option.splits)
  then show ?case using Cons by simp
qed

lemma safe_write_csv_nonempty:
  assumes "all_books \<noteq> []"
  shows "safe_write_csv all_books w =
     (Inr (),
      w\<lparr>files := (files w)(RAW_CSV \<mapsto>
           csv_line (sort (remdups (concat (map (map fst) all_books))))
           @ concat (map (\<lambda>row. csv_line
                 (map (\<lambda>key. case map_of row key of Some (Some v) \<Rightarrow> v | _ \<Rightarrow> [])
                    (sort (remdups (concat (map (map fst) all_books)))))) all_books))\<rparr>)"
proof -
  let ?keys = "sort (remdups (concat (map (map fst) all_books)))"
  let ?w2 = "file_write RAW_CSV (csv_line ?keys) (open_w RAW_CSV w)"
  have covered: "\<forall>row \<in> set all_books. fst ` set row \<subseteq> set ?keys"
    by auto
  have f: "files ?w2 RAW_CSV = Some (csv_line ?keys)"
    by (simp add: file_write_def open_w_def)
  have "safe_write_csv all_books w = writerows ?keys all_books ?w2"
    using assms by (simp add: safe_write_csv_def Let_def)
  also have "\<dots> = (Inr (), fold (\<lambda>row. file_write RAW_CSV
                 (csv_line (map (\<lambda>key. case map_of row key of Some (Some v) \<Rightarrow> v | _ \<Rightarrow> [])
                               ?keys))) all_books ?w2)"
    by (rule writerows_ok[OF covered])
  also have "\<dots> = (Inr (), ?w2\<lparr>files := (files ?w2)(RAW_CSV \<mapsto> csv_line ?keys
       @ concat (map (\<lambda>row. csv_line
                 (map (\<lambda>key. case map_of row key of Some (Some v) \<Rightarrow> v | _ \<Rightarrow> [])
                    ?keys)) all_books))\<rparr>)"
    by (simp only: fold_file_write[OF f])
  finally show ?thesis
    by (simp add: file_write_def open_w_def)
qed

lemma offline_fetch_from:
  "get_soup_and_url offline url 4 1 w =
     (Inr None, w\<lparr>clock := clock w + 4, draws := draws w + 4,
                   sleeps := sleeps w @ [1, 2, 4, 8]\<rparr>)"
proof -
  have f: "\<forall>n. case net offline n url of Returns resp \<Rightarrow> status_code resp \<noteq> 200
                      | Raises \<Rightarrow> True | Interrupted \<Rightarrow> False"
    by (simp add: offline_def)
  have k: "nat (4 + 1 - 1) = 4" by simp
  have r: "random_value offline n = 0" for n
    by (simp add: random_value_def offline_def)
  show ?thesis
    unfolding get_soup_and_url_def
    by (subst get_soup_loop_exhausts[OF f _ k]) (simp_all add: r upt_rec)
qed

lemma json_dumps_Nil: "json_dumps [] = ''[]''"
  by (simp add: json_dumps_def)

text \<open>
  C6, as the claim states it, fails for the empty accumulator: \<open>safe_write_csv\<close> returns
  at once on an empty list. In a run against a site that answers nothing, started with an
  export of an earlier run on disk, the crawl ends with the empty accumulator; the final
  save writes the checkpoint \<open>[]\<close> and leaves the old export, with its row, where it was.
\<close>

theorem C6_empty_accumulator_keeps_old_export:
  "\<exists>w. scrape_all offline 1000 stale_world = (Inr (), w)
       \<and> files w RAW_JSON = Some ''[]''
       \<and> files w RAW_CSV = Some (''title'' @ [CHR 0x0D, CHR 0x0A] @ ''Old'' @ [CHR 0x0D, CHR 0x0A])"
proof -
  have load: "load_existing stale_world = []"
    by (simp add: load_existing_def stale_world_def RAW_JSON_eq RAW_CSV_eq)
  obtain p1 where p1: "urljoin BASE ''catalogue/page-1.html'' = Inr p1"
    using page_url_ok[of 1] by (auto simp: str_int_1)
  have page1: "page_loop offline 1000 1 [] stale_world =
     (Inr (), [], stale_world\<lparr>clock := clock stale_world + 4, draws := draws stale_world + 4,
                   sleeps := sleeps stale_world @ [1, 2, 4, 8]\<rparr>)"
    by (subst page_loop.simps) (simp add: str_int_1 p1 offline_fetch_from)
  show ?thesis
    unfolding scrape_all_def load page1
    by (simp add: safe_write_csv_def files_safe_write_json_partial json_dumps_Nil
        stale_world_def RAW_JSON_eq RAW_CSV_eq)
qed

lemma one_page_run:
  "page_loop interrupted_run 1 1 (load_existing fresh_world) fresh_world =
     (Inr (),
      [[(''title'', Some ''A''),
        (''product_page_url'', Some ''http://books.toscrape.com/catalogue/a/index.html''),
        (''price_text'', Some []), (''availability_text'', Some []),
        (''rating_text'', Some []),
        (''image_url'', Some ''http://books.toscrape.com/catalogue/page-1.html''),
        (''category'', None), (''description'', Some []),
        (''fetched_url'', Some ''http://books.toscrape.com/catalogue/a/index.html'')]],
      \<lparr>files = Map.empty, clock = 2, draws = 2, sleeps = [2 / 5, 4 / 5]\<rparr>)"
proof -
  let ?b = "''http://books.toscrape.com/catalogue/page-1.html''"
  let ?d = "''http://books.toscrape.com/catalogue/a/index.html''"
  let ?w = "\<lambda>c d s. \<lparr>files = Map.empty, clock = c, draws = d, sleeps = s\<rparr>"
  have load: "load_existing fresh_world = []"
    by (simp add: load_existing_def fresh_world_def)
  obtain p1 where p1: "urljoin BASE ''catalogue/page-1.html'' = Inr p1"
    using page_url_ok[of 1] by (auto simp: str_int_1)
  have f1: "get_soup_and_url interrupted_run p1 4 1 (?w 0 0 []) =
              (Inr (Some (example_listing, ?b)), ?w (Suc 0) 0 [])"
    unfolding get_soup_and_url_def
    by (subst get_soup_loop_success[where resp = "Response 200 example_listing ?b"])
       (simp_all add: interrupted_run_def)
  let ?item = "[(''title'', Some ''A''), (''product_page_url'', Some ?d),
                (''price_text'', Some []), (''availability_text'', Some []),
                (''rating_text'', Some []), (''image_url'', Some ?b)]"
  let ?rec = "[(''title'', Some ''A''), (''product_page_url'', Some ?d),
               (''price_text'', Some []), (''availability_text'', Some []),
               (''rating_text'', Some []), (''image_url'', Some ?b),
               (''category'', None), (''description'', Some []), (''fetched_url'', Some ?d)]"
  have item: "parse_list_item example_pod ?b = Inr ?item"
    by (rule parse_example_pod[OF join_link join_empty])
  have f2: "get_soup_and_url interrupted_run ?d 4 1 (?w (Suc 0) 0 []) =
              (Inr (Some (example_detail, ?d)), ?w 2 0 [])"
    unfolding get_soup_and_url_def
    by (subst get_soup_loop_success[where resp = "Response 200 example_detail ?d"])
       (simp_all add: interrupted_run_def)
  have detail: "parse_product_page interrupted_run ?d (?w (Suc 0) 0 []) =
      (Inr [(''category'', None), (''description'', Some []), (''fetched_url'', Some ?d)],
       ?w 2 0 [])"
    by (simp add: parse_product_page_def f2 fields_example_detail)
  have rv: "random_value interrupted_run n = 0" for n
    by (simp add: random_value_def interrupted_run_def)
  have art: "process_article interrupted_run example_pod ?b [] (?w (Suc 0) 0 []) =
      (Inr (), [?rec], ?w 2 (Suc 0) [2 / 5])"
    by (simp add: process_article_def item detail polite_pause_ok rv dict_update_def)
  have page2: "page_loop interrupted_run 1 2 [?rec] (?w 2 (Suc (Suc 0)) [2 / 5, 4 / 5]) =
      (Inr (), [?rec], ?w 2 (Suc (Suc 0)) [2 / 5, 4 / 5])"
    by (subst page_loop.simps) simp
  have page1: "page_loop interrupted_run 1 1 [] (?w 0 0 []) =
      (Inr (), [?rec], ?w 2 (Suc (Suc 0)) [2 / 5, 4 / 5])"
    by (subst page_loop.simps)
       (simp add: str_int_1 p1 f1 pods_example art polite_pause_ok rv page2)
  show ?thesis
    unfolding load using page1 by (simp add: fresh_world_def numeral_2_eq_2)
qed

text \<open>
  C6, amended: when the crawl loop ends normally, the final save returns without an error.
  For a non-empty accumulator it rewrites the export from the whole accumulator: the header
  line holds the keys of all records, sorted and without repetition, and one line per
  record follows, in order, whose cell for a key is the record's value, or empty when the
  record lacks the key or holds None for it. For the empty accumulator the export is not
  written: the file is as the crawl loop left it.
\<close>

theorem C6_export_regenerated_at_finalize:
  assumes run: "page_loop env max_pages 1 (load_existing w) w = (Inr (), all_books, w1)"
  shows "\<exists>w2. scrape_all env max_pages w = (Inr (), w2)
     \<and> (if all_books = [] then files w2 RAW_CSV = files w1 RAW_CSV
        else
          (let keys = sort (remdups (concat (map (map fst) all_books))) in
             set keys = (\<Union>row \<in> set all_books. fst ` set row)
           \<and> sorted keys \<and> distinct keys
           \<and> files w2 RAW_CSV =
               Some (csv_line keys
                     @ concat (map (\<lambda>row. csv_line
                         (map (\<lambda>key. case map_of row key of Some (Some v) \<Rightarrow> v | _ \<Rightarrow> [])
                            keys)) all_books))))"
proof (cases "all_books = []")
  case True
  then show ?thesis
    by (simp add: scrape_all_def run safe_write_csv_def files_safe_write_json_partial
        RAW_JSON_eq RAW_CSV_eq)
next
  case False
  have "set (sort (remdups (concat (map (map fst) all_books))))
      = (\<Union>row \<in> set all_books. fst ` set row)"
    by auto
  then show ?thesis
    using False
    by (simp add: scrape_all_def run safe_write_csv_nonempty[OF False] Let_def)
qed

lemma sort_example_keys:
  "sort [''title'', ''product_page_url'', ''price_text'', ''availability_text'',
         ''rating_text'', ''image_url'', ''category'', ''description'', ''fetched_url'']
   = [''availability_text'', ''category'', ''description'', ''fetched_url'', ''image_url'',
      ''price_text'', ''product_page_url'', ''rating_text'', ''title'']"
  by code_simp

lemma csv_line_example_keys:
  "csv_line [''availability_text'', ''category'', ''description'', ''fetched_url'',
             ''image_url'', ''price_text'', ''product_page_url'', ''rating_text'', ''title'']
   = ''availability_text,category,description,fetched_url,image_url,price_text,product_page_url,rating_text,title''
     @ [CHR 0x0D, CHR 0x0A]"
  by code_simp

lemma csv_line_example_row:
  "csv_line [[], [], [], ''http://books.toscrape.com/catalogue/a/index.html'',
             ''http://books.toscrape.com/catalogue/page-1.html'', [],
             ''http://books.toscrape.com/catalogue/a/index.html'', [], ''A'']
   = '',,,http://books.toscrape.com/catalogue/a/index.html,http://books.toscrape.com/catalogue/page-1.html,,http://books.toscrape.com/catalogue/a/index.html,,A''
     @ [CHR 0x0D, CHR 0x0A]"
  by code_simp

theorem C6_export_regenerated_at_finalize_witness:
  "page_loop interrupted_run 1 1 (load_existing fresh_world) fresh_world =
     (Inr (),
      [[(''title'', Some ''A''),
        (''product_page_url'', Some ''http://books.toscrape.com/catalogue/a/index.html''),
        (''price_text'', Some []), (''availability_text'', Some []),
        (''rating_text'', Some []),
        (''image_url'', Some ''http://books.toscrape.com/catalogue/page-1.html''),
        (''category'', None), (''description'', Some []),
        (''fetched_url'', Some ''http://books.toscrape.com/catalogue/a/index.html'')]],
      \<lparr>files = Map.empty, clock = 2, draws = 2, sleeps = [2 / 5, 4 / 5]\<rparr>)
   \<and> (\<exists>w2. scrape_all interrupted_run 1 fresh_world = (Inr (), w2)
        \<and> files w2 RAW_CSV = Some (
            ''availability_text,category,description,fetched_url,image_url,price_text,product_page_url,rating_text,title''
            @ [CHR 0x0D, CHR 0x0A]
            @ '',,,http://books.toscrape.com/catalogue/a/index.html,http://books.toscrape.com/catalogue/page-1.html,,http://books.toscrape.com/catalogue/a/index.html,,A''
            @ [CHR 0x0D, CHR 0x0A]))"
  using C6_export_regenerated_at_finalize[OF one_page_run] one_page_run
  by (auto simp add: sort_example_keys csv_line_example_keys csv_line_example_row)

section \<open>Properties of the two parsers\<close>












section \<open>Properties of link resolution in the crawl\<close>










end
